theory Spec2Isabelle
  imports Main "HOL-Library.AList"
begin

section \<open>Values of the program\<close>

text \<open>
  The server receives JSON. A value read by \<^verbatim>\<open>request.json()\<close> is \<^verbatim>\<open>None\<close>, a \<^verbatim>\<open>bool\<close>,
  an \<^verbatim>\<open>int\<close>, a \<^verbatim>\<open>float\<close>, a \<^verbatim>\<open>str\<close>, a \<^verbatim>\<open>list\<close> or a \<^verbatim>\<open>dict\<close> with \<^verbatim>\<open>str\<close> keys.
  A \<^verbatim>\<open>dict\<close> is an association list in insertion order, read with \<open>map_of\<close>; a
  \<^verbatim>\<open>float\<close> is kept as the mantissa and decimal exponent of its literal (no operation
  of the program computes with it). Strings are byte strings: text outside ASCII is its
  UTF-8 encoding, as it goes over the wire.
\<close>

datatype json =
    JNull
  | JBool bool
  | JInt int
  | JFloat int int
  | JStr string
  | JArr "json list"
  | JObj "(string \<times> json) list"

type_synonym dict = "(string \<times> json) list"

text \<open>
  The exceptions the program can raise, each with the value it was raised on:
  \<^verbatim>\<open>for x in v\<close> on a value that is not iterable, hashing a \<^verbatim>\<open>list\<close> or a \<^verbatim>\<open>dict\<close>
  (\<^verbatim>\<open>v in d\<close>, \<^verbatim>\<open>d.get(v)\<close>), \<^verbatim>\<open>f(**v)\<close> on a value that is not a mapping, \<^verbatim>\<open>d[k]\<close> on a
  missing key, \<^verbatim>\<open>v.get\<close> on a value that has no such method, and the pydantic
  \<^verbatim>\<open>ValidationError\<close> with the names of the fields that failed.
\<close>

datatype py_error =
    TypeError_not_iterable json
  | TypeError_unhashable json
  | TypeError_not_a_mapping json
  | KeyError json
  | AttributeError_get json
  | ValidationError "string list"

text \<open>
  Two functions of the interpreter are parameters of the model: \<^verbatim>\<open>str(v)\<close> on a value
  that is not a string (the text of a number, the \<^verbatim>\<open>repr\<close> of a list) and \<^verbatim>\<open>str(e)\<close> on an
  exception (its message). An f-string field \<^verbatim>\<open>{v}\<close> is \<open>format_value\<close>: a \<^verbatim>\<open>str\<close> is
  inserted as it is.
\<close>

record python =
  str_value :: "json \<Rightarrow> string"
  str_exc :: "py_error \<Rightarrow> string"

definition format_value :: "python \<Rightarrow> json \<Rightarrow> string" where
  "format_value py v = (case v of JStr s \<Rightarrow> s | _ \<Rightarrow> str_value py v)"

text \<open>\<^verbatim>\<open>str(n)\<close> of an \<^verbatim>\<open>int\<close>: its decimal digits.\<close>

fun str_nat :: "nat \<Rightarrow> string" where
  "str_nat n =
     (if n < 10 then [''0123456789'' ! n]
      else str_nat (n div 10) @ [''0123456789'' ! (n mod 10)])"

declare str_nat.simps [simp del]

definition str_int :: "int \<Rightarrow> string" where
  "str_int i = (if i < 0 then ''-'' @ str_nat (nat (- i)) else str_nat (nat i))"

subsection \<open>Operations of Python on these values\<close>

text \<open>\<^verbatim>\<open>d.get(k, dflt)\<close> on a \<^verbatim>\<open>dict\<close> with string keys.\<close>

definition dict_get :: "dict \<Rightarrow> string \<Rightarrow> json \<Rightarrow> json" where
  "dict_get d k dflt = (case map_of d k of None \<Rightarrow> dflt | Some v \<Rightarrow> v)"

text \<open>\<^verbatim>\<open>v.get(k, dflt)\<close> on any value: only a \<^verbatim>\<open>dict\<close> has the method.\<close>

fun py_get :: "json \<Rightarrow> string \<Rightarrow> json \<Rightarrow> py_error + json" where
  "py_get (JObj d) k dflt = Inr (dict_get d k dflt)"
| "py_get v k dflt = Inl (AttributeError_get v)"

text \<open>A \<^verbatim>\<open>list\<close> and a \<^verbatim>\<open>dict\<close> have no hash.\<close>

fun hashable :: "json \<Rightarrow> bool" where
  "hashable (JArr xs) = False"
| "hashable (JObj d) = False"
| "hashable v = True"

text \<open>
  The tables of the program (\<^verbatim>\<open>grouped\<close>, \<^verbatim>\<open>counts\<close>, \<^verbatim>\<open>CATEGORY_EMOJIS\<close>,
  \<^verbatim>\<open>PRIORITY_CONFIG\<close>) are dicts whose keys are strings, looked up with a value that the
  request supplies: they are association lists keyed by \<open>json\<close>, every key a \<open>JStr\<close>.
  \<^verbatim>\<open>k in d\<close> and \<^verbatim>\<open>d.get(k, dflt)\<close> hash the key first; \<^verbatim>\<open>d[k]\<close> raises
  \<^verbatim>\<open>KeyError\<close> on a missing key.
\<close>

definition py_in :: "json \<Rightarrow> (json \<times> 'a) list \<Rightarrow> py_error + bool" where
  "py_in k d = (if hashable k then Inr (k \<in> set (map fst d)) else Inl (TypeError_unhashable k))"

definition table_get :: "(json \<times> 'a) list \<Rightarrow> json \<Rightarrow> 'a \<Rightarrow> py_error + 'a" where
  "table_get d k dflt =
     (if hashable k then Inr (case map_of d k of None \<Rightarrow> dflt | Some v \<Rightarrow> v)
      else Inl (TypeError_unhashable k))"

definition subscript :: "(json \<times> 'a) list \<Rightarrow> json \<Rightarrow> py_error + 'a" where
  "subscript d k =
     (if hashable k then (case map_of d k of None \<Rightarrow> Inl (KeyError k) | Some v \<Rightarrow> Inr v)
      else Inl (TypeError_unhashable k))"

text \<open>
  \<^verbatim>\<open>for x in v\<close>: the elements of a \<^verbatim>\<open>list\<close>, the keys of a \<^verbatim>\<open>dict\<close>, the characters of a
  \<^verbatim>\<open>str\<close> (each a \<^verbatim>\<open>str\<close>; the model yields one per byte, and the program only ever
  calls \<^verbatim>\<open>.get\<close> on them); any other value is not iterable.
\<close>

fun py_iter :: "json \<Rightarrow> py_error + json list" where
  "py_iter (JArr xs) = Inr xs"
| "py_iter (JObj d) = Inr (map (\<lambda>(k, v). JStr k) d)"
| "py_iter (JStr s) = Inr (map (\<lambda>c. JStr [c]) s)"
| "py_iter v = Inl (TypeError_not_iterable v)"

section \<open>Constants (lines 50-61)\<close>

definition CATEGORY_EMOJIS :: "(json \<times> string) list" where
  "CATEGORY_EMOJIS =
     [(JStr ''UI'', [CHR 0xF0, CHR 0x9F, CHR 0x8E, CHR 0xA8]),
      (JStr ''UX'', [CHR 0xF0, CHR 0x9F, CHR 0xA7, CHR 0xA0]),
      (JStr ''Copy'', [CHR 0xE2, CHR 0x9C, CHR 0x8D, CHR 0xEF, CHR 0xB8, CHR 0x8F]),
      (JStr ''Tech'', [CHR 0xE2, CHR 0x9A, CHR 0x99, CHR 0xEF, CHR 0xB8, CHR 0x8F])]"

text \<open>The fallback glyph of \<^verbatim>\<open>CATEGORY_EMOJIS.get(category, ...)\<close>, a pushpin.\<close>

definition pin_emoji :: string where
  "pin_emoji = [CHR 0xF0, CHR 0x9F, CHR 0x93, CHR 0x8C]"

record priority_config =
  emoji :: string
  label :: string
  order :: int

definition PRIORITY_CONFIG :: "(json \<times> priority_config) list" where
  "PRIORITY_CONFIG =
     [(JStr ''critical'',
         \<lparr>emoji = [CHR 0xF0, CHR 0x9F, CHR 0x94, CHR 0xB4],
          label = ''Cr'' @ [CHR 0xC3, CHR 0xAD] @ ''tico'', order = 0\<rparr>),
      (JStr ''improvement'',
         \<lparr>emoji = [CHR 0xF0, CHR 0x9F, CHR 0x9F, CHR 0xA1], label = ''Mejora'', order = 1\<rparr>),
      (JStr ''nice_to_have'',
         \<lparr>emoji = [CHR 0xF0, CHR 0x9F, CHR 0x9F, CHR 0xA2], label = ''Nice-to-have'', order = 2\<rparr>)]"

section \<open>The renderer: \<^verbatim>\<open>generate_html_widget\<close> (lines 106-205)\<close>

subsection \<open>The three f-string templates\<close>

text \<open>
  Each template is the concatenation of its literal text, line by line, and its fields.
  \<open>card_html\<close> is the f-string of lines 129-138, \<open>section_html\<close> that of lines 148-161
  and \<open>page_html\<close> that of lines 163-203.
\<close>

definition card_html :: "string \<Rightarrow> string \<Rightarrow> string \<Rightarrow> string \<Rightarrow> string" where
  \<open>card_html category_emoji category item_text original_quote =
     ''\<newline>'' @
     ''                <div style="background: #f8fafc; border-radius: 8px; padding: 12px; margin-bottom: 8px; border-left: 3px solid #e2e8f0;">\<newline>'' @
     ''                    <div style="display: flex; align-items: center; gap: 8px; margin-bottom: 6px;">\<newline>'' @
     ''                        <span style="font-size: 14px;">'' @
     category_emoji @
     ''</span>\<newline>'' @
     ''                        <span style="font-size: 11px; font-weight: 600; color: #64748b; text-transform: uppercase; letter-spacing: 0.5px;">'' @
     category @
     ''</span>\<newline>'' @
     ''                    </div>\<newline>'' @
     ''                    <p style="margin: 0 0 8px 0; color: #1e293b; font-size: 14px; line-height: 1.5;">'' @
     item_text @
     ''</p>\<newline>'' @
     ''                    <p style="margin: 0; font-size: 12px; color: #94a3b8; font-style: italic;">"'' @
     original_quote @
     ''"</p>\<newline>'' @
     ''                </div>\<newline>'' @
     ''            ''\<close>

definition section_html :: "string \<Rightarrow> string \<Rightarrow> int \<Rightarrow> string \<Rightarrow> string" where
  \<open>section_html config_emoji config_label count rendered =
     ''\<newline>'' @
     ''            <div style="margin-bottom: 20px;">\<newline>'' @
     ''                <div style="display: flex; align-items: center; justify-content: space-between; margin-bottom: 12px; padding-bottom: 8px; border-bottom: 1px solid #e2e8f0;">\<newline>'' @
     ''                    <div style="display: flex; align-items: center; gap: 8px;">\<newline>'' @
     ''                        <span style="font-size: 18px;">'' @
     config_emoji @
     ''</span>\<newline>'' @
     ''                        <h3 style="margin: 0; font-size: 16px; font-weight: 600; color: #334155;">'' @
     config_label @
     ''</h3>\<newline>'' @
     ''                    </div>\<newline>'' @
     ''                    <span style="background: #e2e8f0; color: #475569; font-size: 12px; font-weight: 600; padding: 2px 8px; border-radius: 12px;">'' @
     str_int count @
     ''</span>\<newline>'' @
     ''                </div>\<newline>'' @
     ''                <div style="padding-left: 4px;">\<newline>'' @
     ''                    '' @
     rendered @
     ''\<newline>'' @
     ''                </div>\<newline>'' @
     ''            </div>\<newline>'' @
     ''        ''\<close>

definition page_html :: "int \<Rightarrow> int \<Rightarrow> int \<Rightarrow> int \<Rightarrow> string \<Rightarrow> string" where
  \<open>page_html total' critical improvement nice_to_have sections =
     ''<!DOCTYPE html>\<newline>'' @
     ''<html lang="es">\<newline>'' @
     ''<head>\<newline>'' @
     ''    <meta charset="UTF-8">\<newline>'' @
     ''    <meta name="viewport" content="width=device-width, initial-scale=1.0">\<newline>'' @
     ''    <title>Feedback de Reuni'' @ [CHR 0xC3, CHR 0xB3] @ ''n</title>\<newline>'' @
     ''</head>\<newline>'' @
     ''<body style="margin: 0; padding: 16px; font-family: -apple-system, BlinkMacSystemFont, '' @ [CHR 0x27] @ ''Segoe UI'' @ [CHR 0x27] @ '', Roboto, '' @ [CHR 0x27] @ ''Helvetica Neue'' @ [CHR 0x27] @ '', Arial, sans-serif; background: #ffffff;">\<newline>'' @
     ''    <div style="max-width: 600px; margin: 0 auto;">\<newline>'' @
     ''        <!-- Header -->\<newline>'' @
     ''        <div style="background: linear-gradient(135deg, #667eea 0%, #764ba2 100%); border-radius: 12px; padding: 20px; margin-bottom: 20px; color: white;">\<newline>'' @
     ''            <h1 style="margin: 0 0 8px 0; font-size: 20px; font-weight: 700;">'' @ [CHR 0xF0, CHR 0x9F, CHR 0x93, CHR 0x8B] @ '' Resumen de Feedback</h1>\<newline>'' @
     ''            <p style="margin: 0; font-size: 14px; opacity: 0.9;">Total de items procesados: <strong>'' @
     str_int total' @
     ''</strong></p>\<newline>'' @
     ''        </div>\<newline>'' @
     ''        \<newline>'' @
     ''        <!-- Summary Badges -->\<newline>'' @
     ''        <div style="display: flex; gap: 12px; margin-bottom: 20px; flex-wrap: wrap;">\<newline>'' @
     ''            <div style="flex: 1; min-width: 100px; background: #fef2f2; border-radius: 8px; padding: 12px; text-align: center;">\<newline>'' @
     ''                <div style="font-size: 24px; font-weight: 700; color: #dc2626;">'' @
     str_int critical @
     ''</div>\<newline>'' @
     ''                <div style="font-size: 11px; color: #991b1b; text-transform: uppercase; letter-spacing: 0.5px;">Cr'' @ [CHR 0xC3, CHR 0xAD] @ ''ticos</div>\<newline>'' @
     ''            </div>\<newline>'' @
     ''            <div style="flex: 1; min-width: 100px; background: #fefce8; border-radius: 8px; padding: 12px; text-align: center;">\<newline>'' @
     ''                <div style="font-size: 24px; font-weight: 700; color: #ca8a04;">'' @
     str_int improvement @
     ''</div>\<newline>'' @
     ''                <div style="font-size: 11px; color: #854d0e; text-transform: uppercase; letter-spacing: 0.5px;">Mejoras</div>\<newline>'' @
     ''            </div>\<newline>'' @
     ''            <div style="flex: 1; min-width: 100px; background: #f0fdf4; border-radius: 8px; padding: 12px; text-align: center;">\<newline>'' @
     ''                <div style="font-size: 24px; font-weight: 700; color: #16a34a;">'' @
     str_int nice_to_have @
     ''</div>\<newline>'' @
     ''                <div style="font-size: 11px; color: #166534; text-transform: uppercase; letter-spacing: 0.5px;">Nice-to-have</div>\<newline>'' @
     ''            </div>\<newline>'' @
     ''        </div>\<newline>'' @
     ''        \<newline>'' @
     ''        <!-- Priority Sections -->\<newline>'' @
     ''        '' @
     sections @
     ''\<newline>'' @
     ''        \<newline>'' @
     ''        <!-- Footer -->\<newline>'' @
     ''        <div style="text-align: center; padding-top: 16px; border-top: 1px solid #e2e8f0;">\<newline>'' @
     ''            <p style="margin: 0; font-size: 11px; color: #94a3b8;">Generado por Feedback Meeting Processor MCP</p>\<newline>'' @
     ''        </div>\<newline>'' @
     ''    </div>\<newline>'' @
     ''</body>\<newline>'' @
     ''</html>''\<close>

text \<open>The placeholder of an empty bucket (line 123).\<close>

definition no_items_html :: string where
  \<open>no_items_html =
     ''<p style="color: #6b7280; font-style: italic; margin: 0;">Sin items en esta categor'' @
     [CHR 0xC3, CHR 0xAD] @ ''a</p>''\<close>

subsection \<open>Grouping by priority (lines 110-118)\<close>

definition grouped_init :: "(json \<times> json list) list" where
  "grouped_init =
     [(JStr ''critical'', []), (JStr ''improvement'', []), (JStr ''nice_to_have'', [])]"

text \<open>
  The loop of lines 111-114, on the items that are left. \<^verbatim>\<open>grouped[priority].append(item)\<close>
  runs only when the key is there, and changes the list under that key.
\<close>

fun group_loop ::
  "(json \<times> json list) list \<Rightarrow> json list \<Rightarrow> py_error + (json \<times> json list) list" where
  "group_loop grouped [] = Inr grouped"
| "group_loop grouped (item # rest) =
     (case py_get item ''priority'' (JStr ''nice_to_have'') of
        Inl e \<Rightarrow> Inl e
      | Inr priority \<Rightarrow>
          (case py_in priority grouped of
             Inl e \<Rightarrow> Inl e
           | Inr found \<Rightarrow>
               group_loop
                 (if found then AList.map_entry priority (\<lambda>items. items @ [item]) grouped
                  else grouped)
                 rest))"

text \<open>\<^verbatim>\<open>counts = {p: len(items) for p, items in grouped.items()}\<close> and its sum.\<close>

definition counts_of :: "(json \<times> json list) list \<Rightarrow> (json \<times> int) list" where
  "counts_of grouped = map (\<lambda>(p, items). (p, int (length items))) grouped"

definition total_of :: "(json \<times> int) list \<Rightarrow> int" where
  "total_of counts = sum_list (map snd counts)"

subsection \<open>\<^verbatim>\<open>render_items\<close> (lines 121-139)\<close>

text \<open>The loop of lines 126-138: one card per item, in order.\<close>

fun render_cards :: "python \<Rightarrow> json list \<Rightarrow> py_error + string list" where
  "render_cards py [] = Inr []"
| "render_cards py (item # rest) =
     (case py_get item ''category'' (JStr ''UI'') of
        Inl e \<Rightarrow> Inl e
      | Inr category \<Rightarrow>
     (case table_get CATEGORY_EMOJIS category pin_emoji of
        Inl e \<Rightarrow> Inl e
      | Inr category_emoji \<Rightarrow>
     (case py_get item ''item'' (JStr []) of
        Inl e \<Rightarrow> Inl e
      | Inr item_text \<Rightarrow>
     (case py_get item ''original_quote'' (JStr []) of
        Inl e \<Rightarrow> Inl e
      | Inr original_quote \<Rightarrow>
     (case render_cards py rest of
        Inl e \<Rightarrow> Inl e
      | Inr html_items \<Rightarrow>
          Inr (card_html category_emoji (format_value py category)
                 (format_value py item_text) (format_value py original_quote)
               # html_items))))))"

definition render_items :: "python \<Rightarrow> json list \<Rightarrow> py_error + string" where
  "render_items py items =
     (if items = [] then Inr no_items_html
      else (case render_cards py items of
              Inl e \<Rightarrow> Inl e
            | Inr html_items \<Rightarrow> Inr (concat html_items)))"

subsection \<open>The priority sections (lines 142-161) and the page\<close>

fun priority_sections ::
  "python \<Rightarrow> (json \<times> json list) list \<Rightarrow> (json \<times> int) list \<Rightarrow> json list
     \<Rightarrow> py_error + string list" where
  "priority_sections py grouped counts [] = Inr []"
| "priority_sections py grouped counts (priority_key # rest) =
     (case subscript PRIORITY_CONFIG priority_key of
        Inl e \<Rightarrow> Inl e
      | Inr config \<Rightarrow>
     (case subscript grouped priority_key of
        Inl e \<Rightarrow> Inl e
      | Inr items \<Rightarrow>
     (case subscript counts priority_key of
        Inl e \<Rightarrow> Inl e
      | Inr count \<Rightarrow>
     (case render_items py items of
        Inl e \<Rightarrow> Inl e
      | Inr rendered \<Rightarrow>
     (case priority_sections py grouped counts rest of
        Inl e \<Rightarrow> Inl e
      | Inr sections \<Rightarrow>
          Inr (section_html (emoji config) (label config) count rendered # sections))))))"

definition priority_keys :: "json list" where
  "priority_keys = [JStr ''critical'', JStr ''improvement'', JStr ''nice_to_have'']"

definition generate_html_widget :: "python \<Rightarrow> json \<Rightarrow> py_error + string" where
  "generate_html_widget py feedback_items =
     (case py_iter feedback_items of
        Inl e \<Rightarrow> Inl e
      | Inr its \<Rightarrow>
     (case group_loop grouped_init its of
        Inl e \<Rightarrow> Inl e
      | Inr grouped \<Rightarrow>
     (let counts = counts_of grouped; total' = total_of counts in
     (case priority_sections py grouped counts priority_keys of
        Inl e \<Rightarrow> Inl e
      | Inr sections \<Rightarrow>
     (case subscript counts (JStr ''critical'') of
        Inl e \<Rightarrow> Inl e
      | Inr critical \<Rightarrow>
     (case subscript counts (JStr ''improvement'') of
        Inl e \<Rightarrow> Inl e
      | Inr improvement \<Rightarrow>
     (case subscript counts (JStr ''nice_to_have'') of
        Inl e \<Rightarrow> Inl e
      | Inr nice_to_have \<Rightarrow>
          Inr (page_html total' critical improvement nice_to_have (concat sections)))))))))"

section \<open>The REST endpoint: \<^verbatim>\<open>process_feedback\<close> (lines 31-38, 335-378)\<close>

definition counts_init :: "(json \<times> int) list" where
  "counts_init = [(JStr ''critical'', 0), (JStr ''improvement'', 0), (JStr ''nice_to_have'', 0)]"

text \<open>The counting loop of lines 366-369, on the dicts of the items.\<close>

fun count_loop :: "(json \<times> int) list \<Rightarrow> json list \<Rightarrow> py_error + (json \<times> int) list" where
  "count_loop counts [] = Inr counts"
| "count_loop counts (item # rest) =
     (case py_get item ''priority'' (JStr ''nice_to_have'') of
        Inl e \<Rightarrow> Inl e
      | Inr priority \<Rightarrow>
          (case py_in priority counts of
             Inl e \<Rightarrow> Inl e
           | Inr found \<Rightarrow>
               count_loop
                 (if found then AList.map_entry priority (\<lambda>c. c + 1) counts else counts)
                 rest))"

text \<open>
  The request model is typed: the framework validates the body against it before the
  handler runs, so the handler only ever sees items whose \<^verbatim>\<open>category\<close> and
  \<^verbatim>\<open>priority\<close> are values of the two \<^verbatim>\<open>Literal\<close> types.
\<close>

datatype category = UI | UX | Copy | Tech

datatype priority = Critical | Improvement | Nice_to_have

fun category_str :: "category \<Rightarrow> string" where
  "category_str UI = ''UI''"
| "category_str UX = ''UX''"
| "category_str Copy = ''Copy''"
| "category_str Tech = ''Tech''"

fun priority_str :: "priority \<Rightarrow> string" where
  "priority_str Critical = ''critical''"
| "priority_str Improvement = ''improvement''"
| "priority_str Nice_to_have = ''nice_to_have''"

record FeedbackItem =
  item :: string
  category :: category
  priority :: priority
  original_quote :: string

record FeedbackRequest =
  feedback_items :: "FeedbackItem list"

record FeedbackResponse =
  success :: bool
  total_items :: int
  critical_count :: int
  improvement_count :: int
  nice_to_have_count :: int
  html_widget :: string

text \<open>\<^verbatim>\<open>item.dict()\<close>: the four fields, in the order of their declaration.\<close>

definition FeedbackItem_dict :: "FeedbackItem \<Rightarrow> json" where
  "FeedbackItem_dict x =
     JObj [(''item'', JStr (item x)),
           (''category'', JStr (category_str (category x))),
           (''priority'', JStr (priority_str (priority x))),
           (''original_quote'', JStr (original_quote x))]"

definition process_feedback :: "python \<Rightarrow> FeedbackRequest \<Rightarrow> py_error + FeedbackResponse" where
  "process_feedback py request =
     (let items = map FeedbackItem_dict (feedback_items request) in
     (case generate_html_widget py (JArr items) of
        Inl e \<Rightarrow> Inl e
      | Inr html \<Rightarrow>
     (case count_loop counts_init items of
        Inl e \<Rightarrow> Inl e
      | Inr counts \<Rightarrow>
     (case subscript counts (JStr ''critical'') of
        Inl e \<Rightarrow> Inl e
      | Inr c \<Rightarrow>
     (case subscript counts (JStr ''improvement'') of
        Inl e \<Rightarrow> Inl e
      | Inr i \<Rightarrow>
     (case subscript counts (JStr ''nice_to_have'') of
        Inl e \<Rightarrow> Inl e
      | Inr n \<Rightarrow>
          Inr \<lparr>success = True, total_items = int (length items), critical_count = c,
               improvement_count = i, nice_to_have_count = n, html_widget = html\<rparr>))))))"

section \<open>The JSON-RPC endpoint (lines 40-44, 63-100, 211-311)\<close>

subsection \<open>The tool catalog\<close>

definition TOOL_DEFINITION :: json where
  \<open>TOOL_DEFINITION =
     JObj [
       (''name'', JStr ''process_meeting_feedback''),
       (''description'', JStr (''Procesa items de feedback de reuniones y los muestra agrupados por prioridad con categor'' @ [CHR 0xC3, CHR 0xAD] @ ''as visuales'')),
       (''inputSchema'', JObj [
         (''type'', JStr ''object''),
         (''properties'', JObj [
           (''feedback_items'', JObj [
             (''type'', JStr ''array''),
             (''description'', JStr (''Lista de items de feedback extra'' @ [CHR 0xC3, CHR 0xAD] @ ''dos de la transcripci'' @ [CHR 0xC3, CHR 0xB3] @ ''n'')),
             (''items'', JObj [
               (''type'', JStr ''object''),
               (''properties'', JObj [
                 (''item'', JObj [
                   (''type'', JStr ''string''),
                   (''description'', JStr (''Descripci'' @ [CHR 0xC3, CHR 0xB3] @ ''n del punto de feedback''))]),
                 (''category'', JObj [
                   (''type'', JStr ''string''),
                   (''enum'', JArr [JStr ''UI'', JStr ''UX'', JStr ''Copy'', JStr ''Tech'']),
                   (''description'', JStr (''Categor'' @ [CHR 0xC3, CHR 0xAD] @ ''a del feedback''))]),
                 (''priority'', JObj [
                   (''type'', JStr ''string''),
                   (''enum'', JArr [JStr ''critical'', JStr ''improvement'', JStr ''nice_to_have'']),
                   (''description'', JStr ''Nivel de prioridad'')]),
                 (''original_quote'', JObj [
                   (''type'', JStr ''string''),
                   (''description'', JStr ''Frase original de donde se extrae el feedback'')])]),
               (''required'', JArr [JStr ''item'', JStr ''category'', JStr ''priority'', JStr ''original_quote''])])])]),
         (''required'', JArr [JStr ''feedback_items''])])]\<close>

definition handle_tools_list :: json where
  "handle_tools_list = JObj [(''tools'', JArr [TOOL_DEFINITION])]"

subsection \<open>\<^verbatim>\<open>handle_tools_call\<close> and \<^verbatim>\<open>handle_initialize\<close>\<close>

definition tool_error :: "string \<Rightarrow> json" where
  "tool_error text =
     JObj [(''isError'', JBool True),
           (''content'', JArr [JObj [(''type'', JStr ''text''), (''text'', JStr text)]])]"

text \<open>The body of the \<^verbatim>\<open>try\<close> statement (lines 232-244).\<close>

definition tools_call_try :: "python \<Rightarrow> json \<Rightarrow> py_error + json" where
  "tools_call_try py arguments =
     (case py_get arguments ''feedback_items'' (JArr []) of
        Inl e \<Rightarrow> Inl e
      | Inr its \<Rightarrow>
     (case generate_html_widget py its of
        Inl e \<Rightarrow> Inl e
      | Inr html \<Rightarrow>
          Inr (JObj [(''content'', JArr [JObj [
                 (''type'', JStr ''resource''),
                 (''resource'', JObj [
                    (''uri'', JStr ''feedback://widget''),
                    (''mimeType'', JStr ''text/html+skybridge''),
                    (''text'', JStr html)])]])])))"

text \<open>
  \<^verbatim>\<open>params.get("name")\<close> is \<^verbatim>\<open>None\<close> when the key is absent. \<^verbatim>\<open>except Exception as e\<close>
  catches every exception of the model.
\<close>

definition handle_tools_call :: "python \<Rightarrow> dict \<Rightarrow> py_error + json" where
  "handle_tools_call py params =
     (let tool_name = dict_get params ''name'' JNull;
          arguments = dict_get params ''arguments'' (JObj [])
      in if tool_name \<noteq> JStr ''process_meeting_feedback''
         then Inr (tool_error (''Unknown tool: '' @ format_value py tool_name))
         else (case tools_call_try py arguments of
                 Inr r \<Rightarrow> Inr r
               | Inl e \<Rightarrow> Inr (tool_error (''Error processing feedback: '' @ str_exc py e))))"

definition handle_initialize :: json where
  "handle_initialize =
     JObj [(''protocolVersion'', JStr ''2024-11-05''),
           (''capabilities'', JObj [(''tools'', JObj [])]),
           (''serverInfo'', JObj [(''name'', JStr ''feedback-meeting-processor''),
                                  (''version'', JStr ''1.0.0'')])]"

subsection \<open>The request envelope\<close>

datatype request_id = IdInt int | IdStr string

record JsonRpcRequest =
  jsonrpc :: string
  "method" :: string
  params :: "dict option"
  rpc_id :: "request_id option"

text \<open>
  The envelope's four fields are checked by pydantic, a library. Its validators of a
  present, non-null value are parameters of the model, one for each declared type
  (\<^verbatim>\<open>str\<close>, \<^verbatim>\<open>dict\<close>, \<^verbatim>\<open>Union[int, str]\<close>); a validator yields \<open>None\<close> on a value it
  rejects, and otherwise the value it stores, which may be a coerced one.
  What the class declaration fixes is modelled here: a required field, the defaults of
  the other three, and \<^verbatim>\<open>None\<close> as a value of an \<^verbatim>\<open>Optional\<close> field.
\<close>

record pydantic =
  validate_str :: "json \<Rightarrow> string option"
  validate_dict :: "json \<Rightarrow> dict option"
  validate_int_or_str :: "json \<Rightarrow> request_id option"

definition optional_field :: "(json \<Rightarrow> 'a option) \<Rightarrow> json option \<Rightarrow> 'a option option" where
  "optional_field validate v =
     (case v of
        None \<Rightarrow> Some None
      | Some JNull \<Rightarrow> Some None
      | Some w \<Rightarrow> map_option Some (validate w))"

text \<open>
  \<^verbatim>\<open>JsonRpcRequest(**body)\<close>: \<^verbatim>\<open>**\<close> needs a mapping; then every field is validated,
  and the fields that fail are reported together.
\<close>

definition JsonRpcRequest_init :: "pydantic \<Rightarrow> json \<Rightarrow> py_error + JsonRpcRequest" where
  "JsonRpcRequest_init pd body =
     (case body of
        JObj kw \<Rightarrow>
          (let j = (case map_of kw ''jsonrpc'' of None \<Rightarrow> Some ''2.0''
                    | Some v \<Rightarrow> validate_str pd v);
               m = (case map_of kw ''method'' of None \<Rightarrow> None
                    | Some v \<Rightarrow> validate_str pd v);
               p = optional_field (validate_dict pd) (map_of kw ''params'');
               i = optional_field (validate_int_or_str pd) (map_of kw ''id'')
           in (case (j, m, p, i) of
                 (Some j', Some m', Some p', Some i') \<Rightarrow>
                   Inr \<lparr>jsonrpc = j', method = m', params = p', rpc_id = i'\<rparr>
               | _ \<Rightarrow>
                   Inl (ValidationError
                     ((if j = None then [''jsonrpc''] else []) @
                      (if m = None then [''method''] else []) @
                      (if p = None then [''params''] else []) @
                      (if i = None then [''id''] else [])))))
      | _ \<Rightarrow> Inl (TypeError_not_a_mapping body))"

subsection \<open>\<^verbatim>\<open>mcp_endpoint\<close> (lines 271-311)\<close>

definition json_of_id :: "request_id option \<Rightarrow> json" where
  "json_of_id i = (case i of None \<Rightarrow> JNull | Some (IdInt n) \<Rightarrow> JInt n | Some (IdStr s) \<Rightarrow> JStr s)"

text \<open>
  Lines 305-311: \<^verbatim>\<open>error\<close> is \<^verbatim>\<open>None\<close> or a dict with two keys, so \<^verbatim>\<open>if error\<close> asks
  whether it was set; \<^verbatim>\<open>result\<close> is \<^verbatim>\<open>None\<close> (here \<open>JNull\<close>) until a handler sets it.
\<close>

definition build_response :: "json \<Rightarrow> json \<Rightarrow> json option \<Rightarrow> json" where
  "build_response request_id result error =
     (let response = [(''jsonrpc'', JStr ''2.0''), (''id'', request_id)]
      in (case error of
            Some err \<Rightarrow> JObj (AList.update ''error'' err response)
          | None \<Rightarrow> JObj (AList.update ''result'' result response)))"

text \<open>Lines 284-311, on the validated envelope.\<close>

definition route :: "python \<Rightarrow> JsonRpcRequest \<Rightarrow> py_error + json" where
  "route py rpc_request =
     (let m = method rpc_request;
          ps = (case params rpc_request of None \<Rightarrow> [] | Some d \<Rightarrow> if d = [] then [] else d);
          request_id = json_of_id (rpc_id rpc_request)
      in if m = ''initialize'' then Inr (build_response request_id handle_initialize None)
         else if m = ''tools/list'' then Inr (build_response request_id handle_tools_list None)
         else if m = ''tools/call'' then
           (case handle_tools_call py ps of
              Inl e \<Rightarrow> Inl e
            | Inr result \<Rightarrow> Inr (build_response request_id result None))
         else if m = ''notifications/initialized'' then
           Inr (JObj [(''jsonrpc'', JStr ''2.0''), (''result'', JObj []), (''id'', request_id)])
         else
           Inr (build_response request_id JNull
                  (Some (JObj [(''code'', JInt (- 32601)),
                               (''message'', JStr (''Method not found: '' @ m))]))))"

text \<open>
  The endpoint. The body is \<open>None\<close> when \<^verbatim>\<open>request.json()\<close> raises
  \<^verbatim>\<open>JSONDecodeError\<close>, the one exception the endpoint catches.
\<close>

definition mcp_endpoint :: "python \<Rightarrow> pydantic \<Rightarrow> json option \<Rightarrow> py_error + json" where
  "mcp_endpoint py pd request_json =
     (case request_json of
        None \<Rightarrow>
          Inr (JObj [(''jsonrpc'', JStr ''2.0''),
                     (''error'', JObj [(''code'', JInt (- 32700)),
                                       (''message'', JStr ''Parse error'')]),
                     (''id'', JNull)])
      | Some body \<Rightarrow>
          (case JsonRpcRequest_init pd body of
             Inl e \<Rightarrow> Inl e
           | Inr rpc_request \<Rightarrow> route py rpc_request))"

section \<open>Notions used in the statements\<close>

subsection \<open>Records the renderer accepts, and its buckets\<close>

text \<open>
  A record can be grouped when it is a dict whose priority (read with its default) has a
  hash, and rendered when its category (read with its default) has one: these are the
  values on which lines 112-113 and 127-128 raise nothing.
\<close>

fun groupable :: "json \<Rightarrow> bool" where
  "groupable (JObj d) = hashable (dict_get d ''priority'' (JStr ''nice_to_have''))"
| "groupable v = False"

fun renderable :: "json \<Rightarrow> bool" where
  "renderable (JObj d) = hashable (dict_get d ''category'' (JStr ''UI''))"
| "renderable v = False"

definition feedback_record :: "json \<Rightarrow> bool" where
  "feedback_record x = (groupable x \<and> renderable x)"

text \<open>The records whose priority, as the renderer reads it, is the key \<open>k\<close>.\<close>

definition has_priority :: "string \<Rightarrow> json \<Rightarrow> bool" where
  "has_priority k x = (py_get x ''priority'' (JStr ''nice_to_have'') = Inr (JStr k))"

definition bucket :: "string \<Rightarrow> json list \<Rightarrow> json list" where
  "bucket k xs = filter (has_priority k) xs"

definition buckets :: "json list \<Rightarrow> (json \<times> json list) list" where
  "buckets xs =
     [(JStr ''critical'', bucket ''critical'' xs),
      (JStr ''improvement'', bucket ''improvement'' xs),
      (JStr ''nice_to_have'', bucket ''nice_to_have'' xs)]"

text \<open>
  The inputs on which the renderer returns a page: every item can be grouped, and every
  item of a bucket can be rendered. An item left out of the buckets is never rendered, so
  nothing is asked of its category.
\<close>

definition pageable :: "json list \<Rightarrow> bool" where
  "pageable xs =
     (list_all groupable xs \<and>
      list_all renderable (bucket ''critical'' xs) \<and>
      list_all renderable (bucket ''improvement'' xs) \<and>
      list_all renderable (bucket ''nice_to_have'' xs))"

text \<open>
  A record completed with the values the renderer reads for the fields it lacks.
\<close>

definition fill :: "string \<Rightarrow> json \<Rightarrow> dict \<Rightarrow> dict" where
  "fill k v d = (if map_of d k = None then d @ [(k, v)] else d)"

fun with_defaults :: "json \<Rightarrow> json" where
  "with_defaults (JObj d) =
     JObj (fill ''item'' (JStr [])
          (fill ''category'' (JStr ''UI'')
          (fill ''priority'' (JStr ''nice_to_have'')
          (fill ''original_quote'' (JStr []) d))))"
| "with_defaults v = v"

text \<open>A function on records, applied to every record of every bucket.\<close>

definition map_buckets ::
  "(json \<Rightarrow> json) \<Rightarrow> (json \<times> json list) list \<Rightarrow> (json \<times> json list) list" where
  "map_buckets f G = map (\<lambda>(k, ys). (k, map f ys)) G"

subsection \<open>What a JSON Schema requires\<close>

text \<open>
  The meaning of the keywords that the tool catalog uses, after the JSON Schema
  specification: \<^verbatim>\<open>type\<close>, \<^verbatim>\<open>enum\<close>, \<^verbatim>\<open>required\<close> (of an object), \<^verbatim>\<open>properties\<close> (of the
  members that are present) and \<^verbatim>\<open>items\<close> (of every element of an array). A keyword
  constrains only the instances of the kind it is about, and \<^verbatim>\<open>description\<close> constrains
  nothing.
\<close>

fun has_type :: "string \<Rightarrow> json \<Rightarrow> bool" where
  "has_type t JNull = (t = ''null'')"
| "has_type t (JBool b) = (t = ''boolean'')"
| "has_type t (JInt i) = (t = ''integer'' \<or> t = ''number'')"
| "has_type t (JFloat m e) =
     (t = ''number'' \<or> t = ''integer'' \<and> (0 \<le> e \<or> m mod 10 ^ nat (- e) = 0))"
| "has_type t (JStr s) = (t = ''string'')"
| "has_type t (JArr xs) = (t = ''array'')"
| "has_type t (JObj d) = (t = ''object'')"

function (sequential) valid :: "json \<Rightarrow> json \<Rightarrow> bool" where
  "valid (JObj sch) inst =
     ((case map_of sch ''type'' of Some (JStr t) \<Rightarrow> has_type t inst | _ \<Rightarrow> True) \<and>
      (case map_of sch ''enum'' of Some (JArr vs) \<Rightarrow> inst \<in> set vs | _ \<Rightarrow> True) \<and>
      (case (map_of sch ''required'', inst) of
         (Some (JArr ks), JObj d) \<Rightarrow>
           list_all (\<lambda>k. case k of JStr s \<Rightarrow> map_of d s \<noteq> None | _ \<Rightarrow> True) ks
       | _ \<Rightarrow> True) \<and>
      (case (map_of sch ''properties'', inst) of
         (Some (JObj props), JObj d) \<Rightarrow>
           list_all (\<lambda>(k, sub). case map_of d k of None \<Rightarrow> True | Some v \<Rightarrow> valid sub v) props
       | _ \<Rightarrow> True) \<and>
      (case (map_of sch ''items'', inst) of
         (Some sub, JArr xs) \<Rightarrow> list_all (valid sub) xs
       | _ \<Rightarrow> True))"
| "valid sch inst = True"
  by pat_completeness auto
termination
proof (relation "measure (\<lambda>(sch, inst). size sch)", goal_cases)
  case 1
  show ?case by simp
next
  case (2 sch inst a b x21 x22 x7 x xa y x2)
  have mem: "(k, v) \<in> set d \<Longrightarrow> size v < Suc (size_list (size_prod (\<lambda>x. 0) size) d)"
    for k :: string and v :: json and d
    by (induction d) auto
  from 2 have "(''properties'', JObj x22) \<in> set sch"
    by (auto dest: map_of_SomeD [OF sym])
  from mem [OF this]
  have "size_list (size_prod (\<lambda>x. 0) size) x22 < size_list (size_prod (\<lambda>x. 0) size) sch"
    by simp
  moreover from 2 have "(xa, y) \<in> set x22" by simp
  from mem [OF this] have "size y < Suc (size_list (size_prod (\<lambda>x. 0) size) x22)" .
  ultimately show ?case by simp
next
  case (3 sch inst a b x2 x6 z)
  have mem: "(k, v) \<in> set d \<Longrightarrow> size v < Suc (size_list (size_prod (\<lambda>x. 0) size) d)"
    for k :: string and v :: json and d
    by (induction d) auto
  from 3 have "(''items'', x2) \<in> set sch"
    by (auto dest: map_of_SomeD [OF sym])
  from mem [OF this] show ?case by simp
qed

text \<open>A member of an object, \<open>JNull\<close> when there is none.\<close>

definition field :: "string \<Rightarrow> json \<Rightarrow> json" where
  "field k v = (case v of JObj d \<Rightarrow> dict_get d k JNull | _ \<Rightarrow> JNull)"

definition input_schema :: json where
  "input_schema = field ''inputSchema'' TOOL_DEFINITION"

definition record_schema :: json where
  "record_schema = field ''items'' (field ''feedback_items'' (field ''properties'' input_schema))"

text \<open>
  The arguments that the catalog's contract describes: an object whose
  \<^verbatim>\<open>feedback_items\<close> is an array of objects, each with a string \<^verbatim>\<open>item\<close>, a \<^verbatim>\<open>category\<close>
  and a \<^verbatim>\<open>priority\<close> of the two enumerations, and a string \<^verbatim>\<open>original_quote\<close>.
\<close>

definition is_string :: "json option \<Rightarrow> bool" where
  "is_string v = (case v of Some (JStr s) \<Rightarrow> True | _ \<Rightarrow> False)"

definition is_one_of :: "string list \<Rightarrow> json option \<Rightarrow> bool" where
  "is_one_of ks v = (case v of Some (JStr s) \<Rightarrow> s \<in> set ks | _ \<Rightarrow> False)"

fun conforming_record :: "json \<Rightarrow> bool" where
  "conforming_record (JObj r) =
     (is_string (map_of r ''item'') \<and>
      is_one_of [''UI'', ''UX'', ''Copy'', ''Tech''] (map_of r ''category'') \<and>
      is_one_of [''critical'', ''improvement'', ''nice_to_have''] (map_of r ''priority'') \<and>
      is_string (map_of r ''original_quote''))"
| "conforming_record v = False"

fun conforming_arguments :: "json \<Rightarrow> bool" where
  "conforming_arguments (JObj a) =
     (case map_of a ''feedback_items'' of
        Some (JArr xs) \<Rightarrow> list_all conforming_record xs
      | _ \<Rightarrow> False)"
| "conforming_arguments v = False"

subsection \<open>An interpreter and a validator to evaluate examples with\<close>

text \<open>
  The theorems hold for every interpreter and every validator. The examples below are
  evaluated with these two: an interpreter that prints a fixed text for a value that is
  not a string and for an exception, and a validator that accepts exactly the values of
  the declared type.
\<close>

definition plain_python :: python where
  "plain_python = \<lparr>str_value = (\<lambda>v. ''<value>''), str_exc = (\<lambda>e. ''<message>'')\<rparr>"

definition strict_pydantic :: pydantic where
  "strict_pydantic =
     \<lparr>validate_str = (\<lambda>v. case v of JStr s \<Rightarrow> Some s | _ \<Rightarrow> None),
      validate_dict = (\<lambda>v. case v of JObj d \<Rightarrow> Some d | _ \<Rightarrow> None),
      validate_int_or_str =
        (\<lambda>v. case v of JInt n \<Rightarrow> Some (IdInt n) | JStr s \<Rightarrow> Some (IdStr s) | _ \<Rightarrow> None)\<rparr>"

section \<open>The two loops group and count alike\<close>

lemma map_fst_counts_of: "map fst (counts_of G) = map fst G"
  by (induction G) (auto simp: counts_of_def)

lemma py_in_counts_of: "py_in p (counts_of G) = py_in p G"
  by (simp add: py_in_def map_fst_counts_of)

lemma counts_of_map_entry:
  "counts_of (AList.map_entry p (\<lambda>xs. xs @ [x]) G) = AList.map_entry p (\<lambda>c. c + 1) (counts_of G)"
  by (induction G) (auto simp: counts_of_def)

text \<open>
  The invariant of the two loops run side by side: the counts are the lengths of the
  buckets. Both loops read the priority in the same way and test it against the same
  keys, so they raise on the same item, or neither does.
\<close>

lemma count_loop_counts_of:
  "count_loop (counts_of G) xs =
     (case group_loop G xs of Inl e \<Rightarrow> Inl e | Inr G' \<Rightarrow> Inr (counts_of G'))"
proof (induction xs arbitrary: G)
  case Nil
  show ?case by simp
next
  case (Cons x xs)
  show ?case
  proof (cases "py_get x ''priority'' (JStr ''nice_to_have'')")
    case (Inl e)
    then show ?thesis by simp
  next
    case (Inr p)
    show ?thesis
    proof (cases "py_in p G")
      case (Inl e)
      with Inr show ?thesis by (simp add: py_in_counts_of)
    next
      case found: (Inr b)
      show ?thesis
        using Inr found Cons.IH [of "AList.map_entry p (\<lambda>ys. ys @ [x]) G"] Cons.IH [of G]
        by (simp add: py_in_counts_of counts_of_map_entry)
    qed
  qed
qed

lemma counts_init_eq: "counts_init = counts_of grouped_init"
  by (simp add: counts_init_def counts_of_def grouped_init_def)

text \<open>
  \<^bold>\<open>C3\<close>. For every input sequence, the counts of the REST handler's loop are the sizes
  of the buckets that the renderer's loop builds on the same input, key by key; where
  one loop raises, the other raises the same exception.
\<close>

theorem count_loop_refines_group_loop:
  "count_loop counts_init xs =
     (case group_loop grouped_init xs of
        Inl e \<Rightarrow> Inl e
      | Inr grouped \<Rightarrow> Inr (map (\<lambda>(p, items). (p, int (length items))) grouped))"
proof -
  have "count_loop counts_init xs =
     (case group_loop grouped_init xs of Inl e \<Rightarrow> Inl e | Inr grouped \<Rightarrow> Inr (counts_of grouped))"
    unfolding counts_init_eq by (rule count_loop_counts_of)
  then show ?thesis unfolding counts_of_def .
qed

text \<open>
  \<^bold>\<open>C3\<close>, an instance: two improvements and an unrecognised priority.
\<close>

theorem count_loop_refines_group_loop_witness:
  "count_loop counts_init
     [JObj [(''priority'', JStr ''improvement'')], JObj [(''priority'', JStr ''urgent'')],
      JObj [(''priority'', JStr ''improvement'')]] =
   Inr [(JStr ''critical'', 0), (JStr ''improvement'', 2), (JStr ''nice_to_have'', 0)]"
  using count_loop_refines_group_loop
    [of "[JObj [(''priority'', JStr ''improvement'')], JObj [(''priority'', JStr ''urgent'')],
      JObj [(''priority'', JStr ''improvement'')]]"]
  by (simp add: grouped_init_def py_in_def dict_get_def)

section \<open>What the renderer computes\<close>

subsection \<open>The buckets\<close>

lemma set_bucket: "x \<in> set (bucket k xs) \<longleftrightarrow> x \<in> set xs \<and> has_priority k x"
  by (simp add: bucket_def)

lemma list_all_bucket: "list_all P xs \<Longrightarrow> list_all P (bucket k xs)"
  by (simp add: bucket_def list_all_iff)

lemma group_loop_buckets:
  "list_all groupable xs \<Longrightarrow>
   group_loop [(JStr ''critical'', c), (JStr ''improvement'', i), (JStr ''nice_to_have'', n)] xs =
     Inr [(JStr ''critical'', c @ bucket ''critical'' xs),
          (JStr ''improvement'', i @ bucket ''improvement'' xs),
          (JStr ''nice_to_have'', n @ bucket ''nice_to_have'' xs)]"
proof (induction xs arbitrary: c i n)
  case Nil
  show ?case by (simp add: bucket_def)
next
  case (Cons x xs)
  from Cons.prems obtain d where x: "x = JObj d"
    and h: "hashable (dict_get d ''priority'' (JStr ''nice_to_have''))"
    by (cases x) auto
  from Cons.prems have rest: "list_all groupable xs" by simp
  show ?case
    using h Cons.IH [OF rest]
    by (simp add: x py_in_def bucket_def has_priority_def)
qed

lemma group_loop_init_buckets:
  "list_all groupable xs \<Longrightarrow> group_loop grouped_init xs = Inr (buckets xs)"
  using group_loop_buckets [of xs "[]" "[]" "[]"] by (simp add: grouped_init_def buckets_def)

text \<open>The loop only returns when every item could be grouped.\<close>

lemma group_loop_Inr_groupable:
  "group_loop G xs = Inr G' \<Longrightarrow> list_all groupable xs"
proof (induction xs arbitrary: G)
  case Nil
  show ?case by simp
next
  case (Cons x xs)
  from Cons.prems obtain d where x: "x = JObj d" by (cases x) auto
  from Cons.prems have h: "hashable (dict_get d ''priority'' (JStr ''nice_to_have''))"
    by (auto simp: x py_in_def split: if_splits)
  from Cons.prems h obtain G1 where "group_loop G1 xs = Inr G'"
    by (auto simp: x py_in_def split: if_splits)
  from Cons.IH [OF this] h show ?case by (simp add: x)
qed

subsection \<open>The cards, the sections and the page\<close>

lemma render_cards_total:
  "list_all renderable xs \<Longrightarrow> \<exists>cards. render_cards py xs = Inr cards \<and> length cards = length xs"
proof (induction xs)
  case Nil
  show ?case by simp
next
  case (Cons x xs)
  from Cons.prems obtain d where x: "x = JObj d"
    and h: "hashable (dict_get d ''category'' (JStr ''UI''))"
    by (cases x) auto
  from Cons obtain cards where "render_cards py xs = Inr cards" "length cards = length xs" by auto
  with h show ?case by (simp add: x table_get_def)
qed

lemma render_items_total:
  "list_all renderable xs \<Longrightarrow> \<exists>html. render_items py xs = Inr html"
  using render_cards_total [of xs py] by (auto simp: render_items_def)

lemma priority_sections_buckets:
  "priority_sections py
      [(JStr ''critical'', c), (JStr ''improvement'', i), (JStr ''nice_to_have'', n)]
      (counts_of [(JStr ''critical'', c), (JStr ''improvement'', i), (JStr ''nice_to_have'', n)])
      priority_keys =
   (case render_items py c of Inl e \<Rightarrow> Inl e | Inr rc \<Rightarrow>
    (case render_items py i of Inl e \<Rightarrow> Inl e | Inr ri \<Rightarrow>
     (case render_items py n of Inl e \<Rightarrow> Inl e | Inr rn \<Rightarrow>
        Inr [section_html [CHR 0xF0, CHR 0x9F, CHR 0x94, CHR 0xB4]
               (''Cr'' @ [CHR 0xC3, CHR 0xAD] @ ''tico'') (int (length c)) rc,
             section_html [CHR 0xF0, CHR 0x9F, CHR 0x9F, CHR 0xA1] ''Mejora'' (int (length i)) ri,
             section_html [CHR 0xF0, CHR 0x9F, CHR 0x9F, CHR 0xA2] ''Nice-to-have''
               (int (length n)) rn])))"
  by (simp add: priority_keys_def subscript_def PRIORITY_CONFIG_def counts_of_def
      split: sum.splits)

lemma widget_of_buckets:
  "group_loop grouped_init xs =
     Inr [(JStr ''critical'', c), (JStr ''improvement'', i), (JStr ''nice_to_have'', n)] \<Longrightarrow>
   generate_html_widget py (JArr xs) =
     (case priority_sections py
        [(JStr ''critical'', c), (JStr ''improvement'', i), (JStr ''nice_to_have'', n)]
        (counts_of [(JStr ''critical'', c), (JStr ''improvement'', i), (JStr ''nice_to_have'', n)])
        priority_keys of
        Inl e \<Rightarrow> Inl e
      | Inr sections \<Rightarrow>
          Inr (page_html (int (length c) + int (length i) + int (length n))
                 (int (length c)) (int (length i)) (int (length n)) (concat sections)))"
  by (simp add: generate_html_widget_def subscript_def counts_of_def total_of_def add.assoc
      split: sum.splits)

lemma widget_total:
  assumes "list_all feedback_record xs"
  shows "\<exists>sections.
     priority_sections py (buckets xs) (counts_of (buckets xs)) priority_keys = Inr sections \<and>
     generate_html_widget py (JArr xs) =
       Inr (page_html
              (int (length (bucket ''critical'' xs)) + int (length (bucket ''improvement'' xs))
                 + int (length (bucket ''nice_to_have'' xs)))
              (int (length (bucket ''critical'' xs))) (int (length (bucket ''improvement'' xs)))
              (int (length (bucket ''nice_to_have'' xs))) (concat sections))"
proof -
  from assms have g: "list_all groupable xs" and r: "list_all renderable xs"
    by (simp_all add: feedback_record_def list_all_iff)
  have grp: "group_loop grouped_init xs = Inr (buckets xs)"
    using g by (rule group_loop_init_buckets)
  obtain rc ri rn where
    "render_items py (bucket ''critical'' xs) = Inr rc"
    "render_items py (bucket ''improvement'' xs) = Inr ri"
    "render_items py (bucket ''nice_to_have'' xs) = Inr rn"
    using render_items_total [OF list_all_bucket [OF r]] by metis
  then obtain sections where
    s: "priority_sections py (buckets xs) (counts_of (buckets xs)) priority_keys = Inr sections"
    unfolding buckets_def by (simp add: priority_sections_buckets)
  show ?thesis
    using widget_of_buckets [OF grp [unfolded buckets_def], of py] s
    by (simp add: buckets_def)
qed

lemma widget_Inr:
  assumes "generate_html_widget py (JArr xs) = Inr html"
  shows "\<exists>sections.
     priority_sections py (buckets xs) (counts_of (buckets xs)) priority_keys = Inr sections \<and>
     html = page_html
              (int (length (bucket ''critical'' xs)) + int (length (bucket ''improvement'' xs))
                 + int (length (bucket ''nice_to_have'' xs)))
              (int (length (bucket ''critical'' xs))) (int (length (bucket ''improvement'' xs)))
              (int (length (bucket ''nice_to_have'' xs))) (concat sections)"
proof -
  from assms obtain G where G: "group_loop grouped_init xs = Inr G"
    by (auto simp: generate_html_widget_def split: sum.splits)
  from group_loop_Inr_groupable [OF this] have "list_all groupable xs" .
  from group_loop_init_buckets [OF this] have grp: "group_loop grouped_init xs = Inr (buckets xs)" .
  from assms widget_of_buckets [OF grp [unfolded buckets_def], of py]
  show ?thesis by (auto simp: buckets_def split: sum.splits)
qed

subsection \<open>When the renderer returns, and when it raises\<close>

lemma render_cards_Inr_renderable:
  "render_cards py xs = Inr cards \<Longrightarrow> list_all renderable xs"
proof (induction xs arbitrary: cards)
  case Nil
  then show ?case by simp
next
  case (Cons x xs)
  from Cons.prems obtain d where x: "x = JObj d" by (cases x) auto
  from Cons.prems have h: "hashable (dict_get d ''category'' (JStr ''UI''))"
    by (auto simp: x table_get_def split: if_splits)
  from Cons.prems h obtain cs where cs: "render_cards py xs = Inr cs"
    by (auto simp: x table_get_def split: sum.splits)
  from Cons.IH [OF cs] h show ?case by (simp add: x)
qed

lemma render_items_Inr_renderable:
  "render_items py xs = Inr html \<Longrightarrow> list_all renderable xs"
  by (auto simp: render_items_def split: if_splits sum.splits dest: render_cards_Inr_renderable)

lemma widget_pageable:
  assumes "pageable xs"
  shows "\<exists>sections.
     priority_sections py (buckets xs) (counts_of (buckets xs)) priority_keys = Inr sections \<and>
     generate_html_widget py (JArr xs) =
       Inr (page_html
              (int (length (bucket ''critical'' xs)) + int (length (bucket ''improvement'' xs))
                 + int (length (bucket ''nice_to_have'' xs)))
              (int (length (bucket ''critical'' xs))) (int (length (bucket ''improvement'' xs)))
              (int (length (bucket ''nice_to_have'' xs))) (concat sections))"
proof -
  from assms have g: "list_all groupable xs" by (simp add: pageable_def)
  have grp: "group_loop grouped_init xs = Inr (buckets xs)"
    using g by (rule group_loop_init_buckets)
  obtain rc ri rn where
    "render_items py (bucket ''critical'' xs) = Inr rc"
    "render_items py (bucket ''improvement'' xs) = Inr ri"
    "render_items py (bucket ''nice_to_have'' xs) = Inr rn"
    using assms render_items_total [of _ py] unfolding pageable_def by metis
  then obtain sections where
    s: "priority_sections py (buckets xs) (counts_of (buckets xs)) priority_keys = Inr sections"
    unfolding buckets_def by (simp add: priority_sections_buckets)
  show ?thesis
    using widget_of_buckets [OF grp [unfolded buckets_def], of py] s
    by (simp add: buckets_def)
qed

lemma widget_Inr_pageable:
  assumes "generate_html_widget py (JArr xs) = Inr html"
  shows "pageable xs"
proof -
  from assms obtain G where G: "group_loop grouped_init xs = Inr G"
    by (auto simp: generate_html_widget_def split: sum.splits)
  from group_loop_Inr_groupable [OF this] have g: "list_all groupable xs" .
  from widget_Inr [OF assms] obtain sections where
    "priority_sections py (buckets xs) (counts_of (buckets xs)) priority_keys = Inr sections"
    by blast
  then obtain rc ri rn where
    "render_items py (bucket ''critical'' xs) = Inr rc"
    "render_items py (bucket ''improvement'' xs) = Inr ri"
    "render_items py (bucket ''nice_to_have'' xs) = Inr rn"
    unfolding buckets_def priority_sections_buckets by (auto split: sum.splits)
  with g show ?thesis
    by (simp add: pageable_def render_items_Inr_renderable)
qed

lemma widget_returns_iff:
  "(\<exists>html. generate_html_widget py (JArr xs) = Inr html) \<longleftrightarrow> pageable xs"
  using widget_pageable [of xs py] widget_Inr_pageable [of py xs] by blast

lemma group_loop_returns_iff:
  "(\<exists>G. group_loop grouped_init xs = Inr G) \<longleftrightarrow> list_all groupable xs"
  using group_loop_init_buckets [of xs] group_loop_Inr_groupable [of grouped_init xs] by blast

lemma count_loop_returns_iff:
  "(\<exists>C. count_loop counts_init xs = Inr C) \<longleftrightarrow> list_all groupable xs"
  using group_loop_returns_iff [of xs]
  by (auto simp: counts_init_eq count_loop_counts_of split: sum.splits)

lemma group_loop_append:
  "group_loop G (xs @ ys) =
     (case group_loop G xs of Inl e \<Rightarrow> Inl e | Inr G' \<Rightarrow> group_loop G' ys)"
  by (induction xs arbitrary: G) (auto split: sum.splits)

lemma group_loop_unhashable:
  assumes "list_all groupable pre"
    and "\<not> hashable (dict_get d ''priority'' (JStr ''nice_to_have''))"
  shows "group_loop grouped_init (pre @ JObj d # post) =
     Inl (TypeError_unhashable (dict_get d ''priority'' (JStr ''nice_to_have'')))"
  using assms
  by (simp add: group_loop_append group_loop_init_buckets py_in_def)

lemma widget_unhashable:
  assumes "list_all groupable pre"
    and "\<not> hashable (dict_get d ''priority'' (JStr ''nice_to_have''))"
  shows "generate_html_widget py (JArr (pre @ JObj d # post)) =
     Inl (TypeError_unhashable (dict_get d ''priority'' (JStr ''nice_to_have'')))"
  using group_loop_unhashable [OF assms, of post]
  by (simp add: generate_html_widget_def)

lemma first_unhashable:
  assumes "\<forall>x \<in> set xs. \<exists>d. x = JObj d" and "\<not> list_all groupable xs"
  shows "\<exists>pre d post. xs = pre @ JObj d # post \<and> list_all groupable pre \<and>
     \<not> hashable (dict_get d ''priority'' (JStr ''nice_to_have''))"
proof -
  from assms(2) have "\<exists>x \<in> set xs. \<not> groupable x" by (simp add: list_all_iff)
  from split_list_first_prop [OF this] obtain pre x post where
    xs: "xs = pre @ x # post" and nx: "\<not> groupable x" and pre: "\<forall>y \<in> set pre. \<not> \<not> groupable y"
    by blast
  from assms(1) xs obtain d where x: "x = JObj d" by auto
  from nx x pre xs show ?thesis by (auto simp: list_all_iff)
qed

text \<open>
  \<^bold>\<open>C1\<close>, as the claim states it, fails: a record whose priority is a list matches none
  of the three keys, and the renderer does not leave it out of the buckets. The test
  \<^verbatim>\<open>priority in grouped\<close> hashes the list and raises \<^verbatim>\<open>TypeError\<close>, so no page is produced,
  not even for the well-formed record before it.
\<close>

theorem unhashable_priority_counterexample:
  "generate_html_widget plain_python
     (JArr [JObj [(''item'', JStr ''Button too small''), (''category'', JStr ''UI''),
                  (''priority'', JStr ''critical''), (''original_quote'', JStr ''tiny'')],
            JObj [(''item'', JStr ''Later''), (''priority'', JArr [JStr ''critical''])]]) =
   Inl (TypeError_unhashable (JArr [JStr ''critical'']))"
  by (simp add: generate_html_widget_def grouped_init_def py_in_def dict_get_def)

text \<open>
  \<^bold>\<open>C1\<close>, amended. For every sequence of items in which every item is a dict whose
  priority, read with its default, has a hash (a string, a number, a boolean or null),
  and every record of a bucket has a category with a hash: the grouping loop returns the
  three buckets, each holding, in input order, exactly the records whose priority is its
  key; a record whose priority is none of the three keys is in no bucket, whatever its
  category; the sections are rendered from the buckets alone; and the page shows as
  total the sum of the three bucket sizes, next to the three sizes. These are exactly the
  inputs on which the renderer returns a page. In a sequence of dicts where the priority
  of some record is a list or a dict, the renderer raises \<^verbatim>\<open>TypeError\<close> on the first such
  record and returns no page.
\<close>

theorem renderer_buckets_by_priority:
  "(pageable xs \<longrightarrow>
      group_loop grouped_init xs = Inr (buckets xs) \<and>
      (\<forall>k x. x \<in> set (bucket k xs) \<longleftrightarrow> x \<in> set xs \<and> has_priority k x) \<and>
      (\<forall>x \<in> set xs.
         \<not> has_priority ''critical'' x \<and> \<not> has_priority ''improvement'' x \<and>
         \<not> has_priority ''nice_to_have'' x \<longrightarrow>
         (\<forall>b \<in> set (buckets xs). x \<notin> set (snd b))) \<and>
      (\<exists>sections.
         priority_sections py (buckets xs) (counts_of (buckets xs)) priority_keys = Inr sections \<and>
         generate_html_widget py (JArr xs) =
           Inr (page_html
                  (int (length (bucket ''critical'' xs)) + int (length (bucket ''improvement'' xs))
                     + int (length (bucket ''nice_to_have'' xs)))
                  (int (length (bucket ''critical'' xs))) (int (length (bucket ''improvement'' xs)))
                  (int (length (bucket ''nice_to_have'' xs))) (concat sections)))) \<and>
   ((\<exists>html. generate_html_widget py (JArr xs) = Inr html) \<longleftrightarrow> pageable xs) \<and>
   (\<forall>pre d post.
      xs = pre @ JObj d # post \<and> list_all groupable pre \<and>
      \<not> hashable (dict_get d ''priority'' (JStr ''nice_to_have'')) \<longrightarrow>
      generate_html_widget py (JArr xs) =
        Inl (TypeError_unhashable (dict_get d ''priority'' (JStr ''nice_to_have'')))) \<and>
   ((\<forall>x \<in> set xs. \<exists>d. x = JObj d) \<and> \<not> list_all groupable xs \<longrightarrow>
      (\<exists>v. \<not> hashable v \<and> generate_html_widget py (JArr xs) = Inl (TypeError_unhashable v)))"
proof (intro conjI impI allI)
  assume p: "pageable xs"
  then show "group_loop grouped_init xs = Inr (buckets xs)"
    by (simp add: pageable_def group_loop_init_buckets)
  show "\<exists>sections.
         priority_sections py (buckets xs) (counts_of (buckets xs)) priority_keys = Inr sections \<and>
         generate_html_widget py (JArr xs) =
           Inr (page_html
                  (int (length (bucket ''critical'' xs)) + int (length (bucket ''improvement'' xs))
                     + int (length (bucket ''nice_to_have'' xs)))
                  (int (length (bucket ''critical'' xs))) (int (length (bucket ''improvement'' xs)))
                  (int (length (bucket ''nice_to_have'' xs))) (concat sections))"
    using p by (rule widget_pageable)
next
  show "x \<in> set (bucket k xs) \<longleftrightarrow> x \<in> set xs \<and> has_priority k x" for k x
    by (simp add: set_bucket)
next
  show "\<forall>x \<in> set xs.
         \<not> has_priority ''critical'' x \<and> \<not> has_priority ''improvement'' x \<and>
         \<not> has_priority ''nice_to_have'' x \<longrightarrow>
         (\<forall>b \<in> set (buckets xs). x \<notin> set (snd b))"
    by (simp add: buckets_def set_bucket)
next
  show "(\<exists>html. generate_html_widget py (JArr xs) = Inr html) \<longleftrightarrow> pageable xs"
    by (rule widget_returns_iff)
next
  fix pre d post
  assume "xs = pre @ JObj d # post \<and> list_all groupable pre \<and>
      \<not> hashable (dict_get d ''priority'' (JStr ''nice_to_have''))"
  then show "generate_html_widget py (JArr xs) =
        Inl (TypeError_unhashable (dict_get d ''priority'' (JStr ''nice_to_have'')))"
    by (simp add: widget_unhashable)
next
  assume "(\<forall>x \<in> set xs. \<exists>d. x = JObj d) \<and> \<not> list_all groupable xs"
  then obtain pre d post where "xs = pre @ JObj d # post" "list_all groupable pre"
     "\<not> hashable (dict_get d ''priority'' (JStr ''nice_to_have''))"
    using first_unhashable [of xs] by blast
  then show "\<exists>v. \<not> hashable v \<and> generate_html_widget py (JArr xs) = Inl (TypeError_unhashable v)"
    using widget_unhashable [of pre d py post] by blast
qed

text \<open>
  \<^bold>\<open>C1\<close>, an instance: of a critical record and a record of priority \<^verbatim>\<open>urgent\<close> whose
  category is a list, the first is the critical bucket, the second is in no bucket, and
  the renderer returns a page.
\<close>

theorem renderer_buckets_by_priority_witness:
  "pageable
     [JObj [(''item'', JStr ''Button too small''), (''category'', JStr ''UI''),
            (''priority'', JStr ''critical''), (''original_quote'', JStr ''tiny'')],
      JObj [(''item'', JStr ''Later''), (''priority'', JStr ''urgent''),
            (''category'', JArr [JStr ''x''])]] \<and>
   group_loop grouped_init
     [JObj [(''item'', JStr ''Button too small''), (''category'', JStr ''UI''),
            (''priority'', JStr ''critical''), (''original_quote'', JStr ''tiny'')],
      JObj [(''item'', JStr ''Later''), (''priority'', JStr ''urgent''),
            (''category'', JArr [JStr ''x''])]] =
   Inr [(JStr ''critical'',
           [JObj [(''item'', JStr ''Button too small''), (''category'', JStr ''UI''),
                  (''priority'', JStr ''critical''), (''original_quote'', JStr ''tiny'')]]),
        (JStr ''improvement'', []), (JStr ''nice_to_have'', [])] \<and>
   (\<exists>html. generate_html_widget plain_python
     (JArr [JObj [(''item'', JStr ''Button too small''), (''category'', JStr ''UI''),
            (''priority'', JStr ''critical''), (''original_quote'', JStr ''tiny'')],
      JObj [(''item'', JStr ''Later''), (''priority'', JStr ''urgent''),
            (''category'', JArr [JStr ''x''])]]) = Inr html)"
proof -
  have h: "pageable
     [JObj [(''item'', JStr ''Button too small''), (''category'', JStr ''UI''),
            (''priority'', JStr ''critical''), (''original_quote'', JStr ''tiny'')],
      JObj [(''item'', JStr ''Later''), (''priority'', JStr ''urgent''),
            (''category'', JArr [JStr ''x''])]]"
    by (simp add: pageable_def bucket_def has_priority_def dict_get_def)
  from renderer_buckets_by_priority
    [of "[JObj [(''item'', JStr ''Button too small''), (''category'', JStr ''UI''),
            (''priority'', JStr ''critical''), (''original_quote'', JStr ''tiny'')],
      JObj [(''item'', JStr ''Later''), (''priority'', JStr ''urgent''),
            (''category'', JArr [JStr ''x''])]]" plain_python] h
  show ?thesis
    by (auto simp: buckets_def bucket_def has_priority_def dict_get_def)
qed

section \<open>The REST handler\<close>

lemma feedback_record_dict: "feedback_record (FeedbackItem_dict x)"
  by (simp add: feedback_record_def FeedbackItem_dict_def dict_get_def)

lemma has_priority_dict: "has_priority k (FeedbackItem_dict x) \<longleftrightarrow> k = priority_str (priority x)"
  by (auto simp: has_priority_def FeedbackItem_dict_def dict_get_def)

text \<open>Every validated item falls in exactly one bucket.\<close>

lemma dict_buckets_partition:
  "length (bucket ''critical'' (map FeedbackItem_dict fs)) +
   length (bucket ''improvement'' (map FeedbackItem_dict fs)) +
   length (bucket ''nice_to_have'' (map FeedbackItem_dict fs)) = length fs"
proof (induction fs)
  case Nil
  show ?case by (simp add: bucket_def)
next
  case (Cons f fs)
  then show ?case
    by (cases "priority f") (simp_all add: bucket_def has_priority_dict)
qed

lemma dict_all_recognized:
  "filter (\<lambda>x. has_priority ''critical'' x \<or> has_priority ''improvement'' x \<or>
               has_priority ''nice_to_have'' x) (map FeedbackItem_dict fs) =
   map FeedbackItem_dict fs"
proof (induction fs)
  case Nil
  show ?case by simp
next
  case (Cons f fs)
  then show ?case by (cases "priority f") (simp_all add: has_priority_dict)
qed

lemma count_loop_init_buckets:
  "list_all groupable xs \<Longrightarrow> count_loop counts_init xs = Inr (counts_of (buckets xs))"
  by (simp add: counts_init_eq count_loop_counts_of group_loop_init_buckets)

text \<open>
  \<^bold>\<open>C2\<close>. For every request that passed validation, the handler returns a response (it
  raises nothing); \<^verbatim>\<open>total_items\<close> is the number of items whose priority is one of the
  three recognised values; the three counts add up to \<^verbatim>\<open>total_items\<close>, and each is the size
  of its bucket.
\<close>

theorem process_feedback_counts:
  "\<exists>r. process_feedback py req = Inr r \<and> success r \<and>
     total_items r =
       int (length (filter (\<lambda>x. has_priority ''critical'' x \<or> has_priority ''improvement'' x \<or>
                                 has_priority ''nice_to_have'' x)
                      (map FeedbackItem_dict (feedback_items req)))) \<and>
     critical_count r + improvement_count r + nice_to_have_count r = total_items r \<and>
     critical_count r = int (length (bucket ''critical'' (map FeedbackItem_dict (feedback_items req)))) \<and>
     improvement_count r =
       int (length (bucket ''improvement'' (map FeedbackItem_dict (feedback_items req)))) \<and>
     nice_to_have_count r =
       int (length (bucket ''nice_to_have'' (map FeedbackItem_dict (feedback_items req))))"
proof -
  define xs where "xs = map FeedbackItem_dict (feedback_items req)"
  have rec: "list_all feedback_record xs"
    by (simp add: xs_def list_all_iff feedback_record_dict)
  then have grp: "list_all groupable xs"
    by (simp add: feedback_record_def list_all_iff)
  from widget_total [OF rec, of py] obtain html where
    html: "generate_html_widget py (JArr xs) = Inr html" by blast
  have cnt: "count_loop counts_init xs = Inr (counts_of (buckets xs))"
    using grp by (rule count_loop_init_buckets)
  have run: "process_feedback py req =
    Inr \<lparr>success = True, total_items = int (length xs),
         critical_count = int (length (bucket ''critical'' xs)),
         improvement_count = int (length (bucket ''improvement'' xs)),
         nice_to_have_count = int (length (bucket ''nice_to_have'' xs)),
         html_widget = html\<rparr>"
    using html cnt
    by (simp add: process_feedback_def xs_def [symmetric] Let_def buckets_def counts_of_def
        subscript_def)
  have part: "int (length (bucket ''critical'' xs)) + int (length (bucket ''improvement'' xs)) +
      int (length (bucket ''nice_to_have'' xs)) = int (length xs)"
    using dict_buckets_partition [of "feedback_items req"] by (simp add: xs_def)
  show ?thesis
    using run part
    by (simp add: xs_def [symmetric] dict_all_recognized [of "feedback_items req", folded xs_def])
qed

text \<open>
  \<^bold>\<open>C2\<close>, an instance: a critical item and a nice-to-have item give the counts 1, 0 and 1
  and the total 2.
\<close>

theorem process_feedback_counts_witness:
  "\<exists>html. process_feedback plain_python
     \<lparr>feedback_items =
        [\<lparr>item = ''Button too small'', category = UI, priority = Critical,
          original_quote = ''tiny''\<rparr>,
         \<lparr>item = ''Rename the tab'', category = Copy, priority = Nice_to_have,
          original_quote = ''odd name''\<rparr>]\<rparr> =
   Inr \<lparr>success = True, total_items = 2, critical_count = 1, improvement_count = 0,
        nice_to_have_count = 1, html_widget = html\<rparr>"
proof -
  from process_feedback_counts [of plain_python
     "\<lparr>feedback_items =
        [\<lparr>item = ''Button too small'', category = UI, priority = Critical,
          original_quote = ''tiny''\<rparr>,
         \<lparr>item = ''Rename the tab'', category = Copy, priority = Nice_to_have,
          original_quote = ''odd name''\<rparr>]\<rparr>"]
  obtain r where r: "process_feedback plain_python
     \<lparr>feedback_items =
        [\<lparr>item = ''Button too small'', category = UI, priority = Critical,
          original_quote = ''tiny''\<rparr>,
         \<lparr>item = ''Rename the tab'', category = Copy, priority = Nice_to_have,
          original_quote = ''odd name''\<rparr>]\<rparr> = Inr r"
    and "success r" and "total_items r = 2" and "critical_count r = 1"
    and "improvement_count r = 0" and "nice_to_have_count r = 1"
    by (auto simp: bucket_def has_priority_dict)
  then have "r = \<lparr>success = True, total_items = 2, critical_count = 1, improvement_count = 0,
        nice_to_have_count = 1, html_widget = html_widget r\<rparr>"
    by (cases r) simp
  with r show ?thesis by metis
qed

section \<open>A record without a priority\<close>

lemma has_priority_missing:
  "map_of d ''priority'' = None \<Longrightarrow> has_priority k (JObj d) \<longleftrightarrow> k = ''nice_to_have''"
  by (auto simp: has_priority_def dict_get_def)

lemma render_cards_member:
  "render_cards py xs = Inr cards \<Longrightarrow> x \<in> set xs \<Longrightarrow>
   \<exists>card. render_cards py [x] = Inr [card] \<and> card \<in> set cards"
proof (induction xs arbitrary: cards)
  case Nil
  then show ?case by simp
next
  case (Cons y ys)
  from Cons.prems(1) obtain c cs where
    y: "render_cards py [y] = Inr [c]" and ys: "render_cards py ys = Inr cs" and cards: "cards = c # cs"
    by (auto split: sum.splits)
  show ?case
  proof (cases "x = y")
    case True
    with y cards show ?thesis by auto
  next
    case False
    with Cons.prems(2) have "x \<in> set ys" by simp
    from Cons.IH [OF ys this] cards show ?thesis by auto
  qed
qed

lemma priority_sections_Inr:
  assumes "priority_sections py
      [(JStr ''critical'', c), (JStr ''improvement'', i), (JStr ''nice_to_have'', n)]
      (counts_of [(JStr ''critical'', c), (JStr ''improvement'', i), (JStr ''nice_to_have'', n)])
      priority_keys = Inr sections"
  shows "\<exists>sc si rn. render_items py n = Inr rn \<and>
     sections = [sc, si, section_html [CHR 0xF0, CHR 0x9F, CHR 0x9F, CHR 0xA2] ''Nice-to-have''
               (int (length n)) rn]"
  using assms unfolding priority_sections_buckets by (auto split: sum.splits)

text \<open>
  \<^bold>\<open>C9\<close>, as the claim states it, fails: a record without priority is put in the
  nice-to-have bucket, but it is not always counted in the badge and rendered. When its
  category is a list, the grouping loop buckets it and \<^verbatim>\<open>CATEGORY_EMOJIS.get\<close> then raises
  \<^verbatim>\<open>TypeError\<close>: no page is returned.
\<close>

theorem unhashable_category_counterexample:
  "group_loop grouped_init
     [JObj [(''item'', JStr ''Dark mode''), (''category'', JArr [])]] =
   Inr [(JStr ''critical'', []), (JStr ''improvement'', []),
        (JStr ''nice_to_have'', [JObj [(''item'', JStr ''Dark mode''), (''category'', JArr [])]])] \<and>
   generate_html_widget plain_python
     (JArr [JObj [(''item'', JStr ''Dark mode''), (''category'', JArr [])]]) =
   Inl (TypeError_unhashable (JArr []))"
  by (simp add: generate_html_widget_def grouped_init_def py_in_def dict_get_def counts_of_def
      total_of_def priority_keys_def subscript_def PRIORITY_CONFIG_def render_items_def
      table_get_def)

text \<open>
  \<^bold>\<open>C9\<close>, amended. For every input and every record of it that has no priority field:
  the record belongs to the nice-to-have bucket and to no other, and the grouping loop,
  when it reaches the record, appends it to that bucket, whatever follows. When every
  item can be grouped, the grouping loop returns these buckets and the counting loop of
  the REST handler returns their sizes, the record counted under nice-to-have; otherwise
  both loops raise. When, in addition, every record of a bucket can be rendered, the
  renderer returns a page whose nice-to-have badge and section show the size of that
  bucket and whose section holds the card of the record; otherwise the renderer raises
  and nothing is counted or rendered.
\<close>

theorem missing_priority_is_nice_to_have:
  assumes "map_of d ''priority'' = None" and "JObj d \<in> set xs"
  shows "JObj d \<in> set (bucket ''nice_to_have'' xs) \<and>
     JObj d \<notin> set (bucket ''critical'' xs) \<and> JObj d \<notin> set (bucket ''improvement'' xs) \<and>
     (\<forall>pre post. xs = pre @ JObj d # post \<and> list_all groupable pre \<longrightarrow>
        group_loop grouped_init xs =
          group_loop [(JStr ''critical'', bucket ''critical'' pre),
                      (JStr ''improvement'', bucket ''improvement'' pre),
                      (JStr ''nice_to_have'', bucket ''nice_to_have'' pre @ [JObj d])] post) \<and>
     (list_all groupable xs \<longrightarrow>
        group_loop grouped_init xs = Inr (buckets xs) \<and>
        count_loop counts_init xs =
          Inr [(JStr ''critical'', int (length (bucket ''critical'' xs))),
               (JStr ''improvement'', int (length (bucket ''improvement'' xs))),
               (JStr ''nice_to_have'', int (length (bucket ''nice_to_have'' xs)))]) \<and>
     (pageable xs \<longrightarrow>
        (\<exists>sc si cards card.
           render_cards py (bucket ''nice_to_have'' xs) = Inr cards \<and>
           render_cards py [JObj d] = Inr [card] \<and> card \<in> set cards \<and>
           generate_html_widget py (JArr xs) =
             Inr (page_html
               (int (length (bucket ''critical'' xs)) + int (length (bucket ''improvement'' xs))
                  + int (length (bucket ''nice_to_have'' xs)))
               (int (length (bucket ''critical'' xs))) (int (length (bucket ''improvement'' xs)))
               (int (length (bucket ''nice_to_have'' xs)))
               (sc @ si @
                section_html [CHR 0xF0, CHR 0x9F, CHR 0x9F, CHR 0xA2] ''Nice-to-have''
                  (int (length (bucket ''nice_to_have'' xs))) (concat cards))))) \<and>
     ((\<exists>grouped. group_loop grouped_init xs = Inr grouped) \<longleftrightarrow> list_all groupable xs) \<and>
     ((\<exists>counts. count_loop counts_init xs = Inr counts) \<longleftrightarrow> list_all groupable xs) \<and>
     ((\<exists>html. generate_html_widget py (JArr xs) = Inr html) \<longleftrightarrow> pageable xs)"
proof (intro conjI allI impI)
  show mem: "JObj d \<in> set (bucket ''nice_to_have'' xs)"
    using assms by (simp add: set_bucket has_priority_missing)
  show "JObj d \<notin> set (bucket ''critical'' xs)"
    using assms by (simp add: set_bucket has_priority_missing)
  show "JObj d \<notin> set (bucket ''improvement'' xs)"
    using assms by (simp add: set_bucket has_priority_missing)
  show "group_loop grouped_init xs =
          group_loop [(JStr ''critical'', bucket ''critical'' pre),
                      (JStr ''improvement'', bucket ''improvement'' pre),
                      (JStr ''nice_to_have'', bucket ''nice_to_have'' pre @ [JObj d])] post"
    if "xs = pre @ JObj d # post \<and> list_all groupable pre" for pre post
    using that assms(1)
    by (simp add: group_loop_append group_loop_init_buckets buckets_def dict_get_def py_in_def)
  show "group_loop grouped_init xs = Inr (buckets xs)" if "list_all groupable xs"
    using that by (rule group_loop_init_buckets)
  show "count_loop counts_init xs =
          Inr [(JStr ''critical'', int (length (bucket ''critical'' xs))),
               (JStr ''improvement'', int (length (bucket ''improvement'' xs))),
               (JStr ''nice_to_have'', int (length (bucket ''nice_to_have'' xs)))]"
    if "list_all groupable xs"
    using count_loop_init_buckets [OF that] by (simp add: buckets_def counts_of_def)
  show "\<exists>sc si cards card.
           render_cards py (bucket ''nice_to_have'' xs) = Inr cards \<and>
           render_cards py [JObj d] = Inr [card] \<and> card \<in> set cards \<and>
           generate_html_widget py (JArr xs) =
             Inr (page_html
               (int (length (bucket ''critical'' xs)) + int (length (bucket ''improvement'' xs))
                  + int (length (bucket ''nice_to_have'' xs)))
               (int (length (bucket ''critical'' xs))) (int (length (bucket ''improvement'' xs)))
               (int (length (bucket ''nice_to_have'' xs)))
               (sc @ si @
                section_html [CHR 0xF0, CHR 0x9F, CHR 0x9F, CHR 0xA2] ''Nice-to-have''
                  (int (length (bucket ''nice_to_have'' xs))) (concat cards)))"
    if "pageable xs"
  proof -
    from widget_pageable [OF that, of py] obtain sections where
      s: "priority_sections py (buckets xs) (counts_of (buckets xs)) priority_keys = Inr sections"
      and html: "generate_html_widget py (JArr xs) = Inr (page_html
              (int (length (bucket ''critical'' xs)) + int (length (bucket ''improvement'' xs))
                 + int (length (bucket ''nice_to_have'' xs)))
              (int (length (bucket ''critical'' xs))) (int (length (bucket ''improvement'' xs)))
              (int (length (bucket ''nice_to_have'' xs))) (concat sections))"
      by blast
    from priority_sections_Inr [OF s [unfolded buckets_def]] obtain sc si rn where
      rn: "render_items py (bucket ''nice_to_have'' xs) = Inr rn" and
      sections: "sections = [sc, si, section_html [CHR 0xF0, CHR 0x9F, CHR 0x9F, CHR 0xA2]
         ''Nice-to-have'' (int (length (bucket ''nice_to_have'' xs))) rn]"
      by blast
    from mem have ne: "bucket ''nice_to_have'' xs \<noteq> []" by auto
    with rn obtain cards where
      cards: "render_cards py (bucket ''nice_to_have'' xs) = Inr cards" and "rn = concat cards"
      by (auto simp: render_items_def split: sum.splits)
    from render_cards_member [OF cards mem] obtain card where
      "render_cards py [JObj d] = Inr [card]" "card \<in> set cards" by blast
    with cards html sections \<open>rn = concat cards\<close> show ?thesis by auto
  qed
  show "(\<exists>grouped. group_loop grouped_init xs = Inr grouped) \<longleftrightarrow> list_all groupable xs"
    by (rule group_loop_returns_iff)
  show "(\<exists>counts. count_loop counts_init xs = Inr counts) \<longleftrightarrow> list_all groupable xs"
    by (rule count_loop_returns_iff)
  show "(\<exists>html. generate_html_widget py (JArr xs) = Inr html) \<longleftrightarrow> pageable xs"
    by (rule widget_returns_iff)
qed

text \<open>
  \<^bold>\<open>C9\<close>, an instance: a record without priority, then a critical one.
\<close>

theorem missing_priority_is_nice_to_have_witness:
  "pageable
     [JObj [(''item'', JStr ''Dark mode''), (''category'', JStr ''UI'')],
      JObj [(''item'', JStr ''Crash on save''), (''priority'', JStr ''critical'')]] \<and>
   group_loop grouped_init
     [JObj [(''item'', JStr ''Dark mode''), (''category'', JStr ''UI'')],
      JObj [(''item'', JStr ''Crash on save''), (''priority'', JStr ''critical'')]] =
   Inr [(JStr ''critical'', [JObj [(''item'', JStr ''Crash on save''), (''priority'', JStr ''critical'')]]),
        (JStr ''improvement'', []),
        (JStr ''nice_to_have'', [JObj [(''item'', JStr ''Dark mode''), (''category'', JStr ''UI'')]])] \<and>
   count_loop counts_init
     [JObj [(''item'', JStr ''Dark mode''), (''category'', JStr ''UI'')],
      JObj [(''item'', JStr ''Crash on save''), (''priority'', JStr ''critical'')]] =
   Inr [(JStr ''critical'', 1), (JStr ''improvement'', 0), (JStr ''nice_to_have'', 1)] \<and>
   (\<exists>html. generate_html_widget plain_python
     (JArr [JObj [(''item'', JStr ''Dark mode''), (''category'', JStr ''UI'')],
      JObj [(''item'', JStr ''Crash on save''), (''priority'', JStr ''critical'')]]) = Inr html)"
proof -
  have a: "map_of [(''item'', JStr ''Dark mode''), (''category'', JStr ''UI'')] ''priority'' = None"
    by simp
  have b: "JObj [(''item'', JStr ''Dark mode''), (''category'', JStr ''UI'')] \<in> set
     [JObj [(''item'', JStr ''Dark mode''), (''category'', JStr ''UI'')],
      JObj [(''item'', JStr ''Crash on save''), (''priority'', JStr ''critical'')]]"
    by simp
  have c: "pageable
     [JObj [(''item'', JStr ''Dark mode''), (''category'', JStr ''UI'')],
      JObj [(''item'', JStr ''Crash on save''), (''priority'', JStr ''critical'')]]"
    by (simp add: pageable_def bucket_def has_priority_def dict_get_def)
  then have g: "list_all groupable
     [JObj [(''item'', JStr ''Dark mode''), (''category'', JStr ''UI'')],
      JObj [(''item'', JStr ''Crash on save''), (''priority'', JStr ''critical'')]]"
    by (simp add: pageable_def)
  from missing_priority_is_nice_to_have [OF a b, of plain_python] c g
  show ?thesis
    by (auto simp: buckets_def bucket_def has_priority_def dict_get_def)
qed

section \<open>Records with missing fields\<close>


lemma dict_get_fill:
  "dict_get (fill k' v d) k dflt =
     (if k = k' \<and> map_of d k = None then v else dict_get d k dflt)"
  by (auto simp: fill_def dict_get_def map_add_def split: option.splits)

lemma map_of_fill:
  "map_of (fill k' v d) k = (if k = k' \<and> map_of d k = None then Some v else map_of d k)"
  by (auto simp: fill_def map_add_def split: option.splits)

lemma py_get_with_defaults:
  "py_get (with_defaults x) ''priority'' (JStr ''nice_to_have'') = py_get x ''priority'' (JStr ''nice_to_have'')"
  "py_get (with_defaults x) ''category'' (JStr ''UI'') = py_get x ''category'' (JStr ''UI'')"
  "py_get (with_defaults x) ''item'' (JStr []) = py_get x ''item'' (JStr [])"
  "py_get (with_defaults x) ''original_quote'' (JStr []) = py_get x ''original_quote'' (JStr [])"
  by (cases x; simp add: dict_get_fill map_of_fill; simp add: dict_get_def)+

lemma render_cards_with_defaults:
  "render_cards py (map with_defaults xs) = render_cards py xs"
  by (induction xs) (simp_all add: py_get_with_defaults cong: sum.case_cong)

lemma render_items_with_defaults:
  "render_items py (map with_defaults xs) = render_items py xs"
  by (simp add: render_items_def render_cards_with_defaults)

lemma py_in_map_buckets: "py_in p (map_buckets f G) = py_in p G"
  by (simp add: py_in_def map_buckets_def comp_def case_prod_beta)

lemma map_entry_map_buckets:
  "map_buckets f (AList.map_entry p (\<lambda>ys. ys @ [x]) G) =
     AList.map_entry p (\<lambda>ys. ys @ [f x]) (map_buckets f G)"
  by (induction G) (auto simp: map_buckets_def)

lemma group_loop_with_defaults:
  "group_loop (map_buckets with_defaults G) (map with_defaults xs) =
     (case group_loop G xs of Inl e \<Rightarrow> Inl e | Inr G' \<Rightarrow> Inr (map_buckets with_defaults G'))"
proof (induction xs arbitrary: G)
  case Nil
  show ?case by simp
next
  case (Cons x xs)
  show ?case
  proof (cases "py_get x ''priority'' (JStr ''nice_to_have'')")
    case (Inl e)
    then show ?thesis by (simp add: py_get_with_defaults)
  next
    case (Inr p)
    show ?thesis
    proof (cases "py_in p G")
      case (Inl e)
      with Inr show ?thesis by (simp add: py_get_with_defaults py_in_map_buckets)
    next
      case found: (Inr b)
      show ?thesis
        using Inr found Cons.IH [of "AList.map_entry p (\<lambda>ys. ys @ [x]) G"] Cons.IH [of G]
        by (simp add: py_get_with_defaults py_in_map_buckets map_entry_map_buckets)
    qed
  qed
qed

lemma counts_of_map_buckets: "counts_of (map_buckets f G) = counts_of G"
  by (induction G) (auto simp: counts_of_def map_buckets_def)

lemma subscript_map_buckets:
  "subscript (map_buckets f G) k =
     (case subscript G k of Inl e \<Rightarrow> Inl e | Inr ys \<Rightarrow> Inr (map f ys))"
  by (induction G) (auto simp: subscript_def map_buckets_def)

lemma priority_sections_with_defaults:
  "priority_sections py (map_buckets with_defaults G) C ks = priority_sections py G C ks"
  by (induction ks)
     (auto simp: subscript_map_buckets render_items_with_defaults split: sum.splits)

lemma widget_with_defaults:
  "generate_html_widget py (JArr (map with_defaults xs)) = generate_html_widget py (JArr xs)"
proof -
  have "grouped_init = map_buckets with_defaults grouped_init"
    by (simp add: grouped_init_def map_buckets_def)
  then have "group_loop grouped_init (map with_defaults xs) =
     (case group_loop grouped_init xs of Inl e \<Rightarrow> Inl e | Inr G' \<Rightarrow> Inr (map_buckets with_defaults G'))"
    using group_loop_with_defaults [of grouped_init xs] by simp
  then show ?thesis
    by (simp add: generate_html_widget_def counts_of_map_buckets priority_sections_with_defaults
        split: sum.splits)
qed


lemma with_defaults_reads:
  "\<exists>d'. with_defaults (JObj d) = JObj d' \<and>
     map_of d' ''item'' = Some (dict_get d ''item'' (JStr [])) \<and>
     map_of d' ''category'' = Some (dict_get d ''category'' (JStr ''UI'')) \<and>
     map_of d' ''priority'' = Some (dict_get d ''priority'' (JStr ''nice_to_have'')) \<and>
     map_of d' ''original_quote'' = Some (dict_get d ''original_quote'' (JStr [])) \<and>
     (\<forall>k. k \<notin> {''item'', ''category'', ''priority'', ''original_quote''} \<longrightarrow>
          map_of d' k = map_of d k)"
  by (auto simp: map_of_fill dict_get_def split: option.splits)

text \<open>
  \<^bold>\<open>C4\<close>, amended. The renderer treats a record with missing fields as the record
  completed with the defaults it reads: the empty string for \<^verbatim>\<open>item\<close> and
  \<^verbatim>\<open>original_quote\<close>, \<^verbatim>\<open>UI\<close> for \<^verbatim>\<open>category\<close>, \<^verbatim>\<open>nice_to_have\<close> for \<^verbatim>\<open>priority\<close>. On the
  completed records it returns what it returns on the records themselves, page or
  exception alike; and it raises nothing on a sequence of records whose priority and
  category, as read with their defaults, have a hash.
\<close>

theorem missing_fields_read_as_defaults:
  "generate_html_widget py (JArr (map with_defaults xs)) = generate_html_widget py (JArr xs) \<and>
   (list_all feedback_record xs \<longrightarrow> (\<exists>html. generate_html_widget py (JArr xs) = Inr html)) \<and>
   (\<forall>d. \<exists>d'. with_defaults (JObj d) = JObj d' \<and>
     map_of d' ''item'' = Some (dict_get d ''item'' (JStr [])) \<and>
     map_of d' ''category'' = Some (dict_get d ''category'' (JStr ''UI'')) \<and>
     map_of d' ''priority'' = Some (dict_get d ''priority'' (JStr ''nice_to_have'')) \<and>
     map_of d' ''original_quote'' = Some (dict_get d ''original_quote'' (JStr [])) \<and>
     (\<forall>k. k \<notin> {''item'', ''category'', ''priority'', ''original_quote''} \<longrightarrow>
          map_of d' k = map_of d k))"
proof (intro conjI impI allI)
  show "generate_html_widget py (JArr (map with_defaults xs)) = generate_html_widget py (JArr xs)"
    by (rule widget_with_defaults)
  show "\<exists>html. generate_html_widget py (JArr xs) = Inr html" if "list_all feedback_record xs"
    using widget_total [OF that, of py] by blast
  show "\<exists>d'. with_defaults (JObj d) = JObj d' \<and>
     map_of d' ''item'' = Some (dict_get d ''item'' (JStr [])) \<and>
     map_of d' ''category'' = Some (dict_get d ''category'' (JStr ''UI'')) \<and>
     map_of d' ''priority'' = Some (dict_get d ''priority'' (JStr ''nice_to_have'')) \<and>
     map_of d' ''original_quote'' = Some (dict_get d ''original_quote'' (JStr [])) \<and>
     (\<forall>k. k \<notin> {''item'', ''category'', ''priority'', ''original_quote''} \<longrightarrow>
          map_of d' k = map_of d k)" for d
    by (rule with_defaults_reads)
qed

text \<open>
  \<^bold>\<open>C4\<close>, an instance: a record with only its \<^verbatim>\<open>item\<close> renders as the completed record.
\<close>

theorem missing_fields_read_as_defaults_witness:
  "list_all feedback_record [JObj [(''item'', JStr ''Crash on save'')]] \<and>
   with_defaults (JObj [(''item'', JStr ''Crash on save'')]) =
     JObj [(''item'', JStr ''Crash on save''), (''original_quote'', JStr []),
           (''priority'', JStr ''nice_to_have''), (''category'', JStr ''UI'')] \<and>
   (\<exists>html.
      generate_html_widget plain_python (JArr [JObj [(''item'', JStr ''Crash on save'')]]) = Inr html \<and>
      generate_html_widget plain_python
        (JArr [JObj [(''item'', JStr ''Crash on save''), (''original_quote'', JStr []),
                     (''priority'', JStr ''nice_to_have''), (''category'', JStr ''UI'')]]) = Inr html)"
proof -
  have h: "list_all feedback_record [JObj [(''item'', JStr ''Crash on save'')]]"
    by (simp add: feedback_record_def dict_get_def)
  have w: "with_defaults (JObj [(''item'', JStr ''Crash on save'')]) =
     JObj [(''item'', JStr ''Crash on save''), (''original_quote'', JStr []),
           (''priority'', JStr ''nice_to_have''), (''category'', JStr ''UI'')]"
    by (simp add: fill_def)
  from missing_fields_read_as_defaults [of plain_python "[JObj [(''item'', JStr ''Crash on save'')]]"]
    h w show ?thesis by auto
qed


lemma page_html_inject: "page_html t a b c s = page_html t a b c s' \<longleftrightarrow> s = s'"
  by (simp add: page_html_def)

lemma section_html_inject: "section_html e l n r = section_html e l n r' \<longleftrightarrow> r = r'"
  by (simp add: section_html_def)

text \<open>
  \<^bold>\<open>C4\<close>, as the claim states it, fails: a record without \<^verbatim>\<open>category\<close> is not rendered
  with the empty string in its place. The card carries the label \<^verbatim>\<open>UI\<close> and the palette
  glyph, the default of \<^verbatim>\<open>item.get("category", "UI")\<close>, and the page differs from the page of
  the same record with the empty category.
\<close>

theorem missing_category_counterexample:
  "render_cards plain_python
     [JObj [(''item'', JStr ''Crash on save''), (''priority'', JStr ''critical''),
            (''original_quote'', JStr ''it crashed'')]] =
   Inr [card_html [CHR 0xF0, CHR 0x9F, CHR 0x8E, CHR 0xA8] ''UI'' ''Crash on save'' ''it crashed''] \<and>
   generate_html_widget plain_python
     (JArr [JObj [(''item'', JStr ''Crash on save''), (''priority'', JStr ''critical''),
                  (''original_quote'', JStr ''it crashed'')]]) \<noteq>
   generate_html_widget plain_python
     (JArr [JObj [(''item'', JStr ''Crash on save''), (''category'', JStr []),
                  (''priority'', JStr ''critical''), (''original_quote'', JStr ''it crashed'')]])"
proof -
  have card: "card_html [CHR 0xF0, CHR 0x9F, CHR 0x8E, CHR 0xA8] ''UI'' ''Crash on save'' ''it crashed'' \<noteq>
     card_html pin_emoji [] ''Crash on save'' ''it crashed''"
    by (simp add: card_html_def pin_emoji_def)
  then show ?thesis
    by (simp add: generate_html_widget_def grouped_init_def py_in_def dict_get_def table_get_def
      CATEGORY_EMOJIS_def format_value_def counts_of_def total_of_def
      priority_keys_def subscript_def PRIORITY_CONFIG_def render_items_def page_html_inject
      section_html_inject)
qed

section \<open>The tool catalog\<close>

lemma record_schema_eq: "record_schema = JObj [
               (''type'', JStr ''object''),
               (''properties'', JObj [
                 (''item'', JObj [
                   (''type'', JStr ''string''),
                   (''description'', JStr (''Descripci'' @ [CHR 0xC3, CHR 0xB3] @ ''n del punto de feedback''))]),
                 (''category'', JObj [
                   (''type'', JStr ''string''),
                   (''enum'', JArr [JStr ''UI'', JStr ''UX'', JStr ''Copy'', JStr ''Tech'']),
                   (''description'', JStr (''Categor'' @ [CHR 0xC3, CHR 0xAD] @ ''a del feedback''))]),
                 (''priority'', JObj [
                   (''type'', JStr ''string''),
                   (''enum'', JArr [JStr ''critical'', JStr ''improvement'', JStr ''nice_to_have'']),
                   (''description'', JStr ''Nivel de prioridad'')]),
                 (''original_quote'', JObj [
                   (''type'', JStr ''string''),
                   (''description'', JStr ''Frase original de donde se extrae el feedback'')])]),
               (''required'', JArr [JStr ''item'', JStr ''category'', JStr ''priority'', JStr ''original_quote''])]"
  by (simp add: record_schema_def input_schema_def field_def TOOL_DEFINITION_def dict_get_def)

lemma has_type_string: "has_type ''string'' v \<longleftrightarrow> (\<exists>s. v = JStr s)"
  by (cases v) simp_all

lemma valid_record_schema: "valid record_schema x \<longleftrightarrow> conforming_record x"
proof (cases x)
  case (JObj r)
  show ?thesis
    unfolding record_schema_eq JObj
    by (auto simp: is_string_def is_one_of_def has_type_string split: option.splits json.splits)
qed (simp_all add: record_schema_eq)

lemma valid_record_schema_fun: "valid record_schema = conforming_record"
  by (rule ext) (rule valid_record_schema)

lemma input_schema_eq:
  "input_schema = JObj [
         (''type'', JStr ''object''),
         (''properties'', JObj [
           (''feedback_items'', JObj [
             (''type'', JStr ''array''),
             (''description'', JStr (''Lista de items de feedback extra'' @ [CHR 0xC3, CHR 0xAD] @ ''dos de la transcripci'' @ [CHR 0xC3, CHR 0xB3] @ ''n'')),
             (''items'', record_schema)])]),
         (''required'', JArr [JStr ''feedback_items''])]"
  by (simp add: record_schema_def input_schema_def field_def TOOL_DEFINITION_def dict_get_def)

lemma has_type_array: "has_type ''array'' v \<longleftrightarrow> (\<exists>xs. v = JArr xs)"
  by (cases v) simp_all

lemma valid_input_schema: "valid input_schema v \<longleftrightarrow> conforming_arguments v"
proof (cases v)
  case (JObj a)
  show ?thesis
    unfolding input_schema_eq JObj
    by (auto simp: has_type_array valid_record_schema_fun split: option.splits json.splits)
qed (simp_all add: input_schema_eq)

text \<open>
  \<^bold>\<open>C5\<close>, as the claim states it, fails: the input contract does not require the array
  to be non-empty, and it does not hold a record to exactly the four fields. The schema
  has no \<^verbatim>\<open>minItems\<close> and no \<^verbatim>\<open>additionalProperties\<close>: it accepts the empty array, and a
  record with a fifth field.
\<close>

theorem empty_array_counterexample:
  "valid input_schema (JObj [(''feedback_items'', JArr [])]) \<and>
   valid input_schema
     (JObj [(''feedback_items'', JArr [
        JObj [(''item'', JStr ''Button too small''), (''category'', JStr ''UI''),
              (''priority'', JStr ''critical''), (''original_quote'', JStr ''tiny''),
              (''owner'', JStr ''Ana'')]])])"
  by (simp add: input_schema_def TOOL_DEFINITION_def field_def dict_get_def)

text \<open>
  \<^bold>\<open>C5\<close>, amended. \<^verbatim>\<open>tools/list\<close> returns, whatever the request's parameters, a fixed
  catalog of one entry, which carries
  the tool's name, a description, and an input contract that accepts exactly the objects
  whose \<^verbatim>\<open>feedback_items\<close> is an array, possibly empty, of objects that each have a string
  \<^verbatim>\<open>item\<close>, a \<^verbatim>\<open>category\<close> of its enumeration, a \<^verbatim>\<open>priority\<close> of its enumeration and a
  string \<^verbatim>\<open>original_quote\<close>; further members are allowed.
\<close>

theorem tools_list_catalog:
  "handle_tools_list = JObj [(''tools'', JArr [TOOL_DEFINITION])] \<and>
   (\<forall>req. method req = ''tools/list'' \<longrightarrow>
      route py req =
        Inr (JObj [(''jsonrpc'', JStr ''2.0''), (''id'', json_of_id (rpc_id req)),
                   (''result'', JObj [(''tools'', JArr [TOOL_DEFINITION])])])) \<and>
   field ''name'' TOOL_DEFINITION = JStr ''process_meeting_feedback'' \<and>
   (\<exists>text. field ''description'' TOOL_DEFINITION = JStr text \<and> text \<noteq> []) \<and>
   (\<forall>arguments. valid input_schema arguments \<longleftrightarrow> conforming_arguments arguments)"
proof (intro conjI allI impI)
  show "handle_tools_list = JObj [(''tools'', JArr [TOOL_DEFINITION])]"
    by (simp add: handle_tools_list_def)
  show "route py req =
        Inr (JObj [(''jsonrpc'', JStr ''2.0''), (''id'', json_of_id (rpc_id req)),
                   (''result'', JObj [(''tools'', JArr [TOOL_DEFINITION])])])"
    if "method req = ''tools/list''" for req
    using that by (simp add: route_def Let_def build_response_def handle_tools_list_def)
  show "field ''name'' TOOL_DEFINITION = JStr ''process_meeting_feedback''"
    by (simp add: TOOL_DEFINITION_def field_def dict_get_def)
  show "\<exists>text. field ''description'' TOOL_DEFINITION = JStr text \<and> text \<noteq> []"
    by (simp add: TOOL_DEFINITION_def field_def dict_get_def)
  show "valid input_schema arguments \<longleftrightarrow> conforming_arguments arguments" for arguments
    by (rule valid_input_schema)
qed

text \<open>
  \<^bold>\<open>C5\<close>, an instance: the contract accepts a complete record and rejects the priority
  \<^verbatim>\<open>urgent\<close>.
\<close>

theorem tools_list_catalog_witness:
  "valid input_schema
     (JObj [(''feedback_items'', JArr [
        JObj [(''item'', JStr ''Button too small''), (''category'', JStr ''UI''),
              (''priority'', JStr ''critical''), (''original_quote'', JStr ''tiny'')]])]) \<and>
   \<not> valid input_schema
     (JObj [(''feedback_items'', JArr [
        JObj [(''item'', JStr ''Button too small''), (''category'', JStr ''UI''),
              (''priority'', JStr ''urgent''), (''original_quote'', JStr ''tiny'')]])])"
  using tools_list_catalog [of plain_python]
  by (simp add: is_string_def is_one_of_def)

section \<open>The dispatcher\<close>

lemma handle_tools_call_returns: "\<exists>r. handle_tools_call py ps = Inr r"
  by (simp add: handle_tools_call_def Let_def split: sum.splits)

lemma route_returns: "\<exists>r. route py req = Inr r"
proof -
  obtain r where "handle_tools_call py
     (case params req of None \<Rightarrow> [] | Some d \<Rightarrow> if d = [] then [] else d) = Inr r"
    using handle_tools_call_returns by blast
  then show ?thesis by (simp add: route_def Let_def)
qed

lemma params_or_empty: "(case p of None \<Rightarrow> [] | Some d \<Rightarrow> if d = [] then [] else d) = (case p of None \<Rightarrow> [] | Some d \<Rightarrow> d)"
  by (cases p) auto

text \<open>No envelope of the dispatcher has both a \<^verbatim>\<open>result\<close> and an \<^verbatim>\<open>error\<close>.\<close>

lemma route_one_of:
  assumes "route py req = Inr (JObj kvs)"
  shows "map_of kvs ''result'' = None \<or> map_of kvs ''error'' = None"
proof -
  obtain r where "handle_tools_call py
     (case params req of None \<Rightarrow> [] | Some d \<Rightarrow> if d = [] then [] else d) = Inr r"
    using handle_tools_call_returns by blast
  with assms show ?thesis
    by (auto simp: route_def Let_def build_response_def split: if_splits)
qed

lemma mcp_endpoint_one_of:
  assumes "mcp_endpoint py pd b = Inr (JObj kvs)"
  shows "map_of kvs ''result'' = None \<or> map_of kvs ''error'' = None"
  using assms route_one_of [of py _ kvs]
  by (auto simp: mcp_endpoint_def split: option.splits sum.splits)

text \<open>
  \<^bold>\<open>C6\<close>. For every \<^verbatim>\<open>params\<close> whose name is the known tool: the handler returns a
  result and raises nothing; when the \<^verbatim>\<open>try\<close> block raises (reading the arguments or
  rendering), the result is the tool-level error with \<^verbatim>\<open>isError\<close> true and the text
  of the exception; and the endpoint puts the handler's result under \<^verbatim>\<open>result\<close>, in an
  envelope without \<^verbatim>\<open>error\<close>.
\<close>

theorem rendering_exception_is_tool_level_error:
  assumes "dict_get ps ''name'' JNull = JStr ''process_meeting_feedback''"
  shows "(\<exists>r. handle_tools_call py ps = Inr r) \<and>
     (\<forall>e. tools_call_try py (dict_get ps ''arguments'' (JObj [])) = Inl e \<longrightarrow>
        handle_tools_call py ps =
          Inr (JObj [(''isError'', JBool True),
                     (''content'', JArr [JObj [
                        (''type'', JStr ''text''),
                        (''text'', JStr (''Error processing feedback: '' @ str_exc py e))]])])) \<and>
     (\<forall>req. method req = ''tools/call'' \<and> params req = Some ps \<longrightarrow>
        (\<exists>r. handle_tools_call py ps = Inr r \<and>
           route py req =
             Inr (JObj [(''jsonrpc'', JStr ''2.0''), (''id'', json_of_id (rpc_id req)),
                        (''result'', r)])))"
proof (intro conjI allI impI)
  show "\<exists>r. handle_tools_call py ps = Inr r" by (rule handle_tools_call_returns)
  show "handle_tools_call py ps =
          Inr (JObj [(''isError'', JBool True),
                     (''content'', JArr [JObj [
                        (''type'', JStr ''text''),
                        (''text'', JStr (''Error processing feedback: '' @ str_exc py e))]])])"
    if "tools_call_try py (dict_get ps ''arguments'' (JObj [])) = Inl e" for e
    using assms that by (simp add: handle_tools_call_def Let_def tool_error_def)
  show "\<exists>r. handle_tools_call py ps = Inr r \<and>
           route py req =
             Inr (JObj [(''jsonrpc'', JStr ''2.0''), (''id'', json_of_id (rpc_id req)),
                        (''result'', r)])"
    if "method req = ''tools/call'' \<and> params req = Some ps" for req
  proof -
    obtain r where r: "handle_tools_call py ps = Inr r"
      using handle_tools_call_returns by blast
    with that show ?thesis
      by (auto simp: route_def Let_def build_response_def)
  qed
qed

text \<open>
  \<^bold>\<open>C6\<close>, an instance: \<^verbatim>\<open>feedback_items\<close> is the number 5, which is not iterable.
\<close>

theorem rendering_exception_is_tool_level_error_witness:
  "tools_call_try plain_python (JObj [(''feedback_items'', JInt 5)]) =
     Inl (TypeError_not_iterable (JInt 5)) \<and>
   handle_tools_call plain_python
     [(''name'', JStr ''process_meeting_feedback''),
      (''arguments'', JObj [(''feedback_items'', JInt 5)])] =
   Inr (JObj [(''isError'', JBool True),
              (''content'', JArr [JObj [(''type'', JStr ''text''),
                 (''text'', JStr ''Error processing feedback: <message>'')]])])"
proof -
  have name: "dict_get [(''name'', JStr ''process_meeting_feedback''),
      (''arguments'', JObj [(''feedback_items'', JInt 5)])] ''name'' JNull =
      JStr ''process_meeting_feedback''"
    by (simp add: dict_get_def)
  have raises: "tools_call_try plain_python (JObj [(''feedback_items'', JInt 5)]) =
     Inl (TypeError_not_iterable (JInt 5))"
    by (simp add: tools_call_try_def dict_get_def generate_html_widget_def)
  from rendering_exception_is_tool_level_error [OF name, of plain_python] raises
  show ?thesis by (simp add: dict_get_def plain_python_def)
qed

text \<open>
  \<^bold>\<open>C7\<close>. For every \<^verbatim>\<open>tools/call\<close> request whose name is not the known tool (or is
  absent), the endpoint returns an envelope with the request's id and a \<^verbatim>\<open>result\<close> that has
  \<^verbatim>\<open>isError\<close> true and a text naming the unknown tool; the envelope has no \<^verbatim>\<open>error\<close>
  member. The id is the one that the validation of the body's \<^verbatim>\<open>id\<close> yields.
\<close>

theorem unknown_tool_is_tool_level_error:
  assumes "JsonRpcRequest_init pd body = Inr req"
    and "method req = ''tools/call''"
    and "dict_get (case params req of None \<Rightarrow> [] | Some d \<Rightarrow> d) ''name'' JNull
           \<noteq> JStr ''process_meeting_feedback''"
  shows "mcp_endpoint py pd (Some body) =
     Inr (JObj [(''jsonrpc'', JStr ''2.0''),
                (''id'', json_of_id (rpc_id req)),
                (''result'',
                   JObj [(''isError'', JBool True),
                         (''content'', JArr [JObj [
                            (''type'', JStr ''text''),
                            (''text'', JStr (''Unknown tool: '' @
                               format_value py
                                 (dict_get (case params req of None \<Rightarrow> [] | Some d \<Rightarrow> d)
                                    ''name'' JNull)))]])])]) \<and>
   (\<forall>kw. body = JObj kw \<longrightarrow>
      optional_field (validate_int_or_str pd) (map_of kw ''id'') = Some (rpc_id req))"
proof
  show "mcp_endpoint py pd (Some body) =
     Inr (JObj [(''jsonrpc'', JStr ''2.0''),
                (''id'', json_of_id (rpc_id req)),
                (''result'',
                   JObj [(''isError'', JBool True),
                         (''content'', JArr [JObj [
                            (''type'', JStr ''text''),
                            (''text'', JStr (''Unknown tool: '' @
                               format_value py
                                 (dict_get (case params req of None \<Rightarrow> [] | Some d \<Rightarrow> d)
                                    ''name'' JNull)))]])])])"
    using assms
    by (simp add: mcp_endpoint_def route_def Let_def params_or_empty handle_tools_call_def
        build_response_def tool_error_def)
  show "\<forall>kw. body = JObj kw \<longrightarrow>
      optional_field (validate_int_or_str pd) (map_of kw ''id'') = Some (rpc_id req)"
    using assms(1)
    by (auto simp: JsonRpcRequest_init_def Let_def split: option.splits if_splits)
qed

text \<open>
  \<^bold>\<open>C7\<close>, an instance: the tool \<^verbatim>\<open>nonexistent_tool\<close>, with the id 7.
\<close>

theorem unknown_tool_is_tool_level_error_witness:
  "mcp_endpoint plain_python strict_pydantic
     (Some (JObj [(''jsonrpc'', JStr ''2.0''), (''method'', JStr ''tools/call''),
                  (''params'', JObj [(''name'', JStr ''nonexistent_tool'')]),
                  (''id'', JInt 7)])) =
   Inr (JObj [(''jsonrpc'', JStr ''2.0''), (''id'', JInt 7),
              (''result'',
                 JObj [(''isError'', JBool True),
                       (''content'', JArr [JObj [(''type'', JStr ''text''),
                          (''text'', JStr ''Unknown tool: nonexistent_tool'')]])])])"
proof -
  have init: "JsonRpcRequest_init strict_pydantic
     (JObj [(''jsonrpc'', JStr ''2.0''), (''method'', JStr ''tools/call''),
            (''params'', JObj [(''name'', JStr ''nonexistent_tool'')]),
            (''id'', JInt 7)]) =
     Inr \<lparr>jsonrpc = ''2.0'', method = ''tools/call'',
          params = Some [(''name'', JStr ''nonexistent_tool'')], rpc_id = Some (IdInt 7)\<rparr>"
    by (simp add: JsonRpcRequest_init_def strict_pydantic_def optional_field_def)
  from unknown_tool_is_tool_level_error [OF init, of plain_python]
  show ?thesis by (simp add: dict_get_def json_of_id_def format_value_def)
qed

text \<open>
  \<^bold>\<open>C8\<close>. For every request whose method is none of the four known ones, the envelope
  carries the request's id and an \<^verbatim>\<open>error\<close> with the code -32601 and a message naming
  the method; it has no \<^verbatim>\<open>result\<close> member. No envelope that the endpoint returns has
  both members.
\<close>

theorem unknown_method_is_protocol_error:
  assumes "JsonRpcRequest_init pd body = Inr req"
    and "method req \<notin> {''initialize'', ''tools/list'', ''tools/call'', ''notifications/initialized''}"
  shows "mcp_endpoint py pd (Some body) =
     Inr (JObj [(''jsonrpc'', JStr ''2.0''),
                (''id'', json_of_id (rpc_id req)),
                (''error'', JObj [(''code'', JInt (- 32601)),
                                  (''message'', JStr (''Method not found: '' @ method req))])]) \<and>
   (\<forall>b kvs. mcp_endpoint py pd b = Inr (JObj kvs) \<longrightarrow>
      map_of kvs ''result'' = None \<or> map_of kvs ''error'' = None)"
proof (intro conjI allI impI)
  show "mcp_endpoint py pd (Some body) =
     Inr (JObj [(''jsonrpc'', JStr ''2.0''),
                (''id'', json_of_id (rpc_id req)),
                (''error'', JObj [(''code'', JInt (- 32601)),
                                  (''message'', JStr (''Method not found: '' @ method req))])])"
    using assms
    by (simp add: mcp_endpoint_def route_def Let_def build_response_def)
  show "map_of kvs ''result'' = None \<or> map_of kvs ''error'' = None"
    if "mcp_endpoint py pd b = Inr (JObj kvs)" for b kvs
    using that by (rule mcp_endpoint_one_of)
qed

text \<open>
  \<^bold>\<open>C8\<close>, an instance: the method \<^verbatim>\<open>resources/list\<close>.
\<close>

theorem unknown_method_is_protocol_error_witness:
  "mcp_endpoint plain_python strict_pydantic
     (Some (JObj [(''jsonrpc'', JStr ''2.0''), (''method'', JStr ''resources/list''),
                  (''id'', JStr ''abc'')])) =
   Inr (JObj [(''jsonrpc'', JStr ''2.0''), (''id'', JStr ''abc''),
              (''error'', JObj [(''code'', JInt (- 32601)),
                                (''message'', JStr ''Method not found: resources/list'')])])"
proof -
  have init: "JsonRpcRequest_init strict_pydantic
     (JObj [(''jsonrpc'', JStr ''2.0''), (''method'', JStr ''resources/list''),
            (''id'', JStr ''abc'')]) =
     Inr \<lparr>jsonrpc = ''2.0'', method = ''resources/list'', params = None,
          rpc_id = Some (IdStr ''abc'')\<rparr>"
    by (simp add: JsonRpcRequest_init_def strict_pydantic_def optional_field_def)
  from unknown_method_is_protocol_error [OF init, of plain_python]
  show ?thesis by (simp add: json_of_id_def)
qed

text \<open>
  \<^bold>\<open>C10\<close>. A body that is valid JSON and not an object makes the endpoint raise
  \<^verbatim>\<open>TypeError\<close>; an object without \<^verbatim>\<open>method\<close> makes it raise \<^verbatim>\<open>ValidationError\<close>, with
  \<^verbatim>\<open>method\<close> among the failed fields; and, for every body, the endpoint raises exactly when
  the construction of the envelope raises, with the same exception, and then returns no
  response envelope.
\<close>

theorem malformed_envelope_raises:
  "((\<forall>kw. body \<noteq> JObj kw) \<longrightarrow>
      mcp_endpoint py pd (Some body) = Inl (TypeError_not_a_mapping body)) \<and>
   (map_of kw ''method'' = None \<longrightarrow>
      (\<exists>fs. mcp_endpoint py pd (Some (JObj kw)) = Inl (ValidationError fs) \<and> ''method'' \<in> set fs)) \<and>
   (\<forall>e. mcp_endpoint py pd (Some body) = Inl e \<longleftrightarrow> JsonRpcRequest_init pd body = Inl e)"
proof (intro conjI impI allI)
  show "mcp_endpoint py pd (Some body) = Inl (TypeError_not_a_mapping body)"
    if "\<forall>kw. body \<noteq> JObj kw"
    using that by (cases body) (simp_all add: mcp_endpoint_def JsonRpcRequest_init_def)
  show "\<exists>fs. mcp_endpoint py pd (Some (JObj kw)) = Inl (ValidationError fs) \<and> ''method'' \<in> set fs"
    if "map_of kw ''method'' = None"
    using that
    by (auto simp: mcp_endpoint_def JsonRpcRequest_init_def Let_def split: option.splits)
  show "mcp_endpoint py pd (Some body) = Inl e \<longleftrightarrow> JsonRpcRequest_init pd body = Inl e" for e
    using route_returns [of py]
    by (auto simp: mcp_endpoint_def split: sum.splits) (metis sum.distinct(1))
qed

text \<open>
  \<^bold>\<open>C10\<close>, two instances: an array, and an object without \<^verbatim>\<open>method\<close>.
\<close>

theorem malformed_envelope_raises_witness:
  "mcp_endpoint plain_python strict_pydantic (Some (JArr [JInt 1])) =
     Inl (TypeError_not_a_mapping (JArr [JInt 1])) \<and>
   mcp_endpoint plain_python strict_pydantic
     (Some (JObj [(''jsonrpc'', JStr ''2.0''), (''id'', JInt 1)])) =
     Inl (ValidationError [''method''])"
proof -
  have a: "\<forall>kw. JArr [JInt 1] \<noteq> JObj kw" by simp
  have b: "JsonRpcRequest_init strict_pydantic (JObj [(''jsonrpc'', JStr ''2.0''), (''id'', JInt 1)]) =
     Inl (ValidationError [''method''])"
    by (simp add: JsonRpcRequest_init_def strict_pydantic_def optional_field_def)
  from malformed_envelope_raises [of "JArr [JInt 1]" plain_python strict_pydantic "[]"] a
  have "mcp_endpoint plain_python strict_pydantic (Some (JArr [JInt 1])) =
     Inl (TypeError_not_a_mapping (JArr [JInt 1]))" by blast
  moreover
  from malformed_envelope_raises
    [of "JObj [(''jsonrpc'', JStr ''2.0''), (''id'', JInt 1)]" plain_python strict_pydantic "[]"] b
  have "mcp_endpoint plain_python strict_pydantic
     (Some (JObj [(''jsonrpc'', JStr ''2.0''), (''id'', JInt 1)])) =
     Inl (ValidationError [''method''])" by blast
  ultimately show ?thesis by simp
qed

end
